theory Spec2Isabelle
  imports Complex_Main
begin

section \<open>The image cropper components\<close>

text \<open>
  The repository holds four cropper components, told apart here by a suffix:
  \<^item> \<open>_IC\<close>: \<open>ImageCropper\<close>, the canvas cropper that keeps its state in refs and draws
    at the image's own size (the file with \<open>zoom.current = 0.5\<close> in \<open>handleImageChange\<close>);
  \<^item> \<open>_Canvas\<close>: the canvas cropper with the \<open>resolutionPx\<close> parameter (the second
    component of \<open>src/ImageCropperWithDiv.tsx\<close>, imported as \<open>ImageCropperWithCanvas\<close>);
  \<^item> \<open>_Div\<close>: \<open>ImageCropperWithDiv\<close> with \<open>useState\<close> state, which always downloads;
  \<^item> \<open>_DivP\<close>: \<open>ImageCropperWithDiv\<close> with the optional state props and \<open>onCrop\<close>.

  Numbers: a JavaScript number is modelled as a \<open>real\<close>; the model has no NaN and no
  infinities. The quotient by the current zoom that a drag handler stores in the state is
  an \<open>option\<close>, \<open>None\<close> for a zero divisor; a quotient that only goes into a recorded
  draw call is divided in \<open>real\<close>. The width and height of a canvas are integers: an
  assigned number goes through the conversion of the \<open>unsigned long\<close> attribute.

  Time: in the two components that keep their state in refs, \<open>updateCanvas\<close> only sets up
  an image load, and the drawing happens when the load completes, on the refs as they are
  by then; the model keeps the loads that are set up and runs them in \<open>flush\<close>. In
  \<open>ImageCropperWithDiv\<close> a handler runs on the state of the last render, and a file read or
  an image load that a handler starts completes before the next event.
\<close>

subsection \<open>Vectors, matrices and the canvas\<close>

text \<open>\<open>interface Vector2 { x: number; y: number }\<close>; the fields are \<open>vec_x\<close> and \<open>vec_y\<close>.\<close>

record Vector2 =
  vec_x :: real
  vec_y :: real

text \<open>
  A 2D affine matrix with the attribute names of \<open>DOMMatrix\<close>:
  \<open>(x, y)\<close> goes to \<open>(m11 x + m21 y + m41, m12 x + m22 y + m42)\<close>.
\<close>

record matrix =
  m11 :: real
  m12 :: real
  m21 :: real
  m22 :: real
  m41 :: real
  m42 :: real

definition identity :: matrix where
  "identity = \<lparr>m11 = 1, m12 = 0, m21 = 0, m22 = 1, m41 = 0, m42 = 0\<rparr>"

definition apply_matrix :: "matrix \<Rightarrow> real \<times> real \<Rightarrow> real \<times> real" where
  "apply_matrix M p =
     (m11 M * fst p + m21 M * snd p + m41 M, m12 M * fst p + m22 M * snd p + m42 M)"

text \<open>\<open>multiply A B\<close> is the matrix product \<open>A B\<close>: it applies \<open>B\<close> first.\<close>

definition multiply :: "matrix \<Rightarrow> matrix \<Rightarrow> matrix" where
  "multiply A B =
     \<lparr>m11 = m11 A * m11 B + m21 A * m12 B,
      m12 = m12 A * m11 B + m22 A * m12 B,
      m21 = m11 A * m21 B + m21 A * m22 B,
      m22 = m12 A * m21 B + m22 A * m22 B,
      m41 = m11 A * m41 B + m21 A * m42 B + m41 A,
      m42 = m12 A * m41 B + m22 A * m42 B + m42 A\<rparr>"

definition translation :: "real \<Rightarrow> real \<Rightarrow> matrix" where
  "translation tx ty = \<lparr>m11 = 1, m12 = 0, m21 = 0, m22 = 1, m41 = tx, m42 = ty\<rparr>"

definition rotation_by :: "real \<Rightarrow> matrix" where
  "rotation_by angle =
     \<lparr>m11 = cos angle, m12 = sin angle, m21 = - sin angle, m22 = cos angle,
      m41 = 0, m42 = 0\<rparr>"

definition scaling :: "real \<Rightarrow> real \<Rightarrow> matrix" where
  "scaling kx ky = \<lparr>m11 = kx, m12 = 0, m21 = 0, m22 = ky, m41 = 0, m42 = 0\<rparr>"

text \<open>
  The three \<open>CanvasRenderingContext2D\<close> calls the croppers use. Each multiplies the
  current transformation matrix on the right, so the call made last acts on the image
  first.
\<close>

definition translate :: "real \<Rightarrow> real \<Rightarrow> matrix \<Rightarrow> matrix" where
  "translate tx ty ctm = multiply ctm (translation tx ty)"

definition rotate :: "real \<Rightarrow> matrix \<Rightarrow> matrix" where
  "rotate angle ctm = multiply ctm (rotation_by angle)"

definition scale :: "real \<Rightarrow> real \<Rightarrow> matrix \<Rightarrow> matrix" where
  "scale kx ky ctm = multiply ctm (scaling kx ky)"

text \<open>
  One \<open>context.drawImage(image, sx, sy, sWidth, sHeight, dx, dy, dWidth, dHeight)\<close>
  call, with the transformation matrix in force when it was made.
\<close>

record drawing =
  d_image :: string
  d_sx :: real
  d_sy :: real
  d_sWidth :: real
  d_sHeight :: real
  d_dx :: real
  d_dy :: real
  d_dWidth :: real
  d_dHeight :: real
  d_transform :: matrix

text \<open>
  A canvas: its bitmap size and the draw calls made since its size was last set
  (setting \<open>canvas.width\<close> clears the bitmap and resets the context).
\<close>

record canvas =
  c_width :: int
  c_height :: int
  c_content :: "drawing list"

text \<open>
  \<open>canvas.width\<close> and \<open>canvas.height\<close> are \<open>unsigned long\<close> attributes. An assigned number
  is first converted: its integer part (rounded towards zero) is taken modulo \<open>2^32\<close>.
  The attribute then takes the converted value when that is at most 2147483647, and its
  default otherwise: 300 for the width, 150 for the height.
\<close>

definition integerPart :: "real \<Rightarrow> int" where
  "integerPart v = (if v < 0 then - \<lfloor>- v\<rfloor> else \<lfloor>v\<rfloor>)"

definition toUnsignedLong :: "real \<Rightarrow> int" where
  "toUnsignedLong v = integerPart v mod 4294967296"

definition canvas_dimension :: "int \<Rightarrow> real \<Rightarrow> int" where
  "canvas_dimension defaultValue v =
     (if toUnsignedLong v \<le> 2147483647 then toUnsignedLong v else defaultValue)"

subsection \<open>The host page\<close>

text \<open>
  What the browser decides, taken as a parameter of every operation:
  \<^item> \<open>canvasElement\<close>: \<open>canvasRef.current\<close> is a canvas element (not \<open>null\<close>);
  \<^item> \<open>context2d\<close>: \<open>getContext("2d")\<close> returns a context (not \<open>null\<close>);
  \<^item> \<open>containerDims\<close>: the measured width and height of the preview container
    (\<open>canvasContainerDims\<close> of \<open>useMeasure\<close>);
  \<^item> \<open>containerRect\<close>: the width of \<open>canvasContainerRef.current?.getBoundingClientRect()\<close>,
    \<open>None\<close> while the ref is \<open>null\<close>;
  \<^item> \<open>imageLoad\<close>: the width and height with which \<open>image.onload\<close> fires for a source,
    \<open>None\<close> when it never fires;
  \<^item> \<open>toDataURL\<close>: the PNG data URL of a canvas (the canvas is taken to be origin-clean, as
    it is for an image read from a local file, so that the call returns).
\<close>

record host =
  canvasElement :: bool
  context2d :: bool
  containerDims :: "real \<times> real"
  containerRect :: "real option"
  imageLoad :: "string \<Rightarrow> (real \<times> real) option"
  toDataURL :: "canvas \<Rightarrow> string"

text \<open>
  A change event of the file input: \<open>e.target.files?.[0]\<close> is missing, or it is a file;
  \<open>File r\<close> carries what \<open>reader.onload\<close> finds in \<open>e.target?.result\<close>: \<open>Some dataUrl\<close>
  when it is a string, \<open>None\<close> when it is not (or the reader never loads).
\<close>

datatype file_event = NoFile | File "string option"

text \<open>
  What an operation does to the outside: a download (\<open>a.href = croppedImage\<close>,
  \<open>a.download = "cropped-image.png"\<close>, \<open>a.click()\<close>), a call of \<open>props.onCrop\<close>, or a call
  of a setter that the caller passed in (\<open>SetPanX v\<close> is \<open>setPan((prev) => ({ ...prev, x }))\<close>
  with \<open>x = v\<close>).
\<close>

datatype action =
    Download string
  | OnCrop string
  | SetImageSrc string
  | SetZoom real
  | SetRotation real
  | SetPanX real
  | SetPanY real

subsection \<open>\<open>ImageCropper\<close>: state in refs, one visible canvas\<close>

text \<open>
  The four refs, the bitmap of the canvas behind \<open>canvasRef\<close>, and the sources of the
  \<open>Image\<close> objects whose \<open>onload\<close> has been set by \<open>updateCanvas\<close> and has not run yet
  (\<open>image.src\<close> is read from \<open>imageSrc.current\<close> when \<open>updateCanvas\<close> is called; zoom,
  rotation and pan are read when \<open>onload\<close> runs).
\<close>

record refs =
  imageSrc :: string
  zoom :: real
  rotation :: real
  pan :: Vector2
  shown :: canvas
  pending :: "string list"

definition initial_refs :: refs where
  "initial_refs =
     \<lparr>imageSrc = '''', zoom = 1, rotation = 0, pan = \<lparr>vec_x = 0, vec_y = 0\<rparr>,
      shown = \<lparr>c_width = 300, c_height = 150, c_content = []\<rparr>, pending = []\<rparr>"

text \<open>The body of \<open>image.onload\<close> in \<open>updateCanvas\<close>, for an image of \<open>width\<close> by \<open>height\<close>.\<close>

definition onload_IC :: "string \<Rightarrow> real \<times> real \<Rightarrow> refs \<Rightarrow> canvas" where
  "onload_IC img dims st =
     (let width = fst dims; height = snd dims;
          size = min width height;
          sWidth = width; sHeight = height; sx = 0; sy = 0;
          dWidth = sWidth * zoom st; dHeight = sHeight * zoom st;
          dx = - dWidth / 2; dy = - dHeight / 2;
          ctm = rotate ((rotation st * pi) / 180)
                  (translate (size / 2 + (vec_x (pan st) * dWidth) / 2)
                             (size / 2 + (vec_y (pan st) * dHeight) / 2) identity)
      in \<lparr>c_width = canvas_dimension 300 size, c_height = canvas_dimension 150 size,
          c_content = [\<lparr>d_image = img, d_sx = sx, d_sy = sy, d_sWidth = sWidth,
                         d_sHeight = sHeight, d_dx = dx, d_dy = dy, d_dWidth = dWidth,
                         d_dHeight = dHeight, d_transform = ctm\<rparr>]\<rparr>)"

text \<open>
  \<open>updateCanvas\<close>: returns at once when the canvas or its context is missing; otherwise
  it creates the \<open>Image\<close> and leaves the drawing to its \<open>onload\<close>.
\<close>

definition updateCanvas_IC :: "host \<Rightarrow> refs \<Rightarrow> refs" where
  "updateCanvas_IC h st =
     (if \<not> canvasElement h \<or> \<not> context2d h then st
      else st\<lparr>pending := pending st @ [imageSrc st]\<rparr>)"

text \<open>The pending \<open>onload\<close> callbacks run, oldest first, on the refs as they are by then.\<close>

fun loads_IC :: "host \<Rightarrow> string list \<Rightarrow> refs \<Rightarrow> refs" where
  "loads_IC h [] st = st"
| "loads_IC h (img # rest) st =
     (case imageLoad h img of
        None \<Rightarrow> loads_IC h rest st
      | Some dims \<Rightarrow> loads_IC h rest (st\<lparr>shown := onload_IC img dims st\<rparr>))"

definition flush_IC :: "host \<Rightarrow> refs \<Rightarrow> refs" where
  "flush_IC h st = loads_IC h (pending st) (st\<lparr>pending := []\<rparr>)"

definition handleImageChange_IC :: "host \<Rightarrow> file_event \<Rightarrow> refs \<Rightarrow> refs" where
  "handleImageChange_IC h e st =
     (let st1 = st\<lparr>zoom := 0.5, rotation := 0\<rparr>
      in case e of
           NoFile \<Rightarrow> st1
         | File None \<Rightarrow> st1
         | File (Some dataUrl) \<Rightarrow> updateCanvas_IC h (st1\<lparr>imageSrc := dataUrl\<rparr>))"

text \<open>
  The slider handlers take the slider's value array and store \<open>value[0]\<close>. For an empty
  array that is \<open>undefined\<close>, which is no number: the model returns \<open>None\<close> there.
\<close>

definition handleZoomChange_IC :: "host \<Rightarrow> real list \<Rightarrow> refs \<Rightarrow> refs option" where
  "handleZoomChange_IC h value st =
     (case value of
        [] \<Rightarrow> None
      | newZoom # _ \<Rightarrow> Some (updateCanvas_IC h (st\<lparr>zoom := newZoom\<rparr>)))"

definition handleRotationChange_IC :: "host \<Rightarrow> real list \<Rightarrow> refs \<Rightarrow> refs option" where
  "handleRotationChange_IC h value st =
     (case value of
        [] \<Rightarrow> None
      | newRotation # _ \<Rightarrow> Some (updateCanvas_IC h (st\<lparr>rotation := newRotation\<rparr>)))"

definition handlePanXChange_IC :: "host \<Rightarrow> real list \<Rightarrow> refs \<Rightarrow> refs option" where
  "handlePanXChange_IC h value st =
     (case value of
        [] \<Rightarrow> None
      | v # _ \<Rightarrow> Some (updateCanvas_IC h (st\<lparr>pan := (pan st)\<lparr>vec_x := v\<rparr>\<rparr>)))"

definition handlePanYChange_IC :: "host \<Rightarrow> real list \<Rightarrow> refs \<Rightarrow> refs option" where
  "handlePanYChange_IC h value st =
     (case value of
        [] \<Rightarrow> None
      | v # _ \<Rightarrow> Some (updateCanvas_IC h (st\<lparr>pan := (pan st)\<lparr>vec_y := v\<rparr>\<rparr>)))"

text \<open>\<open>handleSubmit\<close> changes no ref; it returns what it does to the outside.\<close>

definition handleSubmit_IC :: "host \<Rightarrow> refs \<Rightarrow> action list" where
  "handleSubmit_IC h st =
     (if context2d h \<and> canvasElement h then [Download (toDataURL h (shown st))] else [])"

text \<open>The \<open>wheel\<close> listener: \<open>ctrlKey\<close> and \<open>deltaY\<close> of the event.\<close>

definition trackpadGestureHandler_IC :: "host \<Rightarrow> bool \<Rightarrow> real \<Rightarrow> refs \<Rightarrow> refs" where
  "trackpadGestureHandler_IC h ctrlKey deltaY st =
     (if ctrlKey
      then updateCanvas_IC h (st\<lparr>zoom := max 0.25 (zoom st + - deltaY / 100)\<rparr>)
      else st)"

definition onDrag_IC :: "host \<Rightarrow> real \<times> real \<Rightarrow> refs \<Rightarrow> refs" where
  "onDrag_IC h delta st =
     updateCanvas_IC h
       (st\<lparr>pan := \<lparr>vec_x = vec_x (pan st) + fst delta / 100,
                    vec_y = vec_y (pan st) + snd delta / 100\<rparr>\<rparr>)"

definition onPinch_IC :: "host \<Rightarrow> real \<times> real \<Rightarrow> refs \<Rightarrow> refs" where
  "onPinch_IC h offset st =
     updateCanvas_IC h (st\<lparr>zoom := fst offset, rotation := snd offset\<rparr>)"

subsection \<open>The canvas cropper with \<open>resolutionPx\<close>\<close>

text \<open>
  The same refs. \<open>resolutionPx\<close> is the optional prop (\<open>None\<close>: not provided). The
  quotients by \<open>ratio\<close> go into the recorded draw call only; the model divides in \<open>real\<close>.
\<close>

definition onload_Canvas :: "real option \<Rightarrow> host \<Rightarrow> string \<Rightarrow> real \<times> real \<Rightarrow> refs \<Rightarrow> canvas" where
  "onload_Canvas resolutionPx h img dims st =
     (let width = fst dims; height = snd dims;
          size = (case resolutionPx of
                    Some r \<Rightarrow> r
                  | None \<Rightarrow> (case containerRect h of Some w \<Rightarrow> w | None \<Rightarrow> 512));
          sWidth = width; sHeight = height; sx = 0; sy = 0;
          ratio = (if sWidth > sHeight then sHeight / size else sWidth / size);
          dWidth = (sWidth * zoom st) / ratio; dHeight = (sHeight * zoom st) / ratio;
          dx = - dWidth / 2; dy = - dHeight / 2;
          ctm = rotate ((rotation st * pi) / 180)
                  (translate (size / 2 + vec_x (pan st)) (size / 2 + vec_y (pan st)) identity)
      in \<lparr>c_width = canvas_dimension 300 size, c_height = canvas_dimension 150 size,
          c_content = [\<lparr>d_image = img, d_sx = sx, d_sy = sy, d_sWidth = sWidth,
                         d_sHeight = sHeight, d_dx = dx, d_dy = dy, d_dWidth = dWidth,
                         d_dHeight = dHeight, d_transform = ctm\<rparr>]\<rparr>)"

definition updateCanvas_Canvas :: "host \<Rightarrow> refs \<Rightarrow> refs" where
  "updateCanvas_Canvas h st =
     (if \<not> canvasElement h \<or> \<not> context2d h then st
      else st\<lparr>pending := pending st @ [imageSrc st]\<rparr>)"

fun loads_Canvas :: "real option \<Rightarrow> host \<Rightarrow> string list \<Rightarrow> refs \<Rightarrow> refs" where
  "loads_Canvas resolutionPx h [] st = st"
| "loads_Canvas resolutionPx h (img # rest) st =
     (case imageLoad h img of
        None \<Rightarrow> loads_Canvas resolutionPx h rest st
      | Some dims \<Rightarrow>
          loads_Canvas resolutionPx h rest
            (st\<lparr>shown := onload_Canvas resolutionPx h img dims st\<rparr>))"

definition flush_Canvas :: "real option \<Rightarrow> host \<Rightarrow> refs \<Rightarrow> refs" where
  "flush_Canvas resolutionPx h st =
     loads_Canvas resolutionPx h (pending st) (st\<lparr>pending := []\<rparr>)"

definition handleZoomChange_Canvas :: "host \<Rightarrow> real \<Rightarrow> refs \<Rightarrow> refs" where
  "handleZoomChange_Canvas h v st =
     (let newZoom = max 0.25 v in updateCanvas_Canvas h (st\<lparr>zoom := newZoom\<rparr>))"

definition handleRotationChange_Canvas :: "host \<Rightarrow> real \<Rightarrow> refs \<Rightarrow> refs" where
  "handleRotationChange_Canvas h v st = updateCanvas_Canvas h (st\<lparr>rotation := v\<rparr>)"

definition handlePanXChange_Canvas :: "host \<Rightarrow> real \<Rightarrow> refs \<Rightarrow> refs" where
  "handlePanXChange_Canvas h v st =
     updateCanvas_Canvas h (st\<lparr>pan := (pan st)\<lparr>vec_x := v\<rparr>\<rparr>)"

definition handlePanYChange_Canvas :: "host \<Rightarrow> real \<Rightarrow> refs \<Rightarrow> refs" where
  "handlePanYChange_Canvas h v st =
     updateCanvas_Canvas h (st\<lparr>pan := (pan st)\<lparr>vec_y := v\<rparr>\<rparr>)"

definition handleImageChange_Canvas :: "host \<Rightarrow> file_event \<Rightarrow> refs \<Rightarrow> refs" where
  "handleImageChange_Canvas h e st =
     (case e of
        NoFile \<Rightarrow> st
      | File None \<Rightarrow> st
      | File (Some dataUrl) \<Rightarrow>
          updateCanvas_Canvas h
            (handleRotationChange_Canvas h 0
              (handleZoomChange_Canvas h 1
                (handlePanXChange_Canvas h 0 (st\<lparr>imageSrc := dataUrl\<rparr>)))))"

definition handleSubmit_Canvas :: "host \<Rightarrow> refs \<Rightarrow> action list" where
  "handleSubmit_Canvas h st =
     (if context2d h \<and> canvasElement h then [Download (toDataURL h (shown st))] else [])"

definition onDrag_Canvas :: "host \<Rightarrow> real \<times> real \<Rightarrow> refs \<Rightarrow> refs" where
  "onDrag_Canvas h offset st =
     updateCanvas_Canvas h
       (handlePanYChange_Canvas h (snd offset) (handlePanXChange_Canvas h (fst offset) st))"

definition onPinch_Canvas :: "host \<Rightarrow> real \<times> real \<Rightarrow> refs \<Rightarrow> refs" where
  "onPinch_Canvas h offset st =
     updateCanvas_Canvas h
       (handleRotationChange_Canvas h (snd offset) (handleZoomChange_Canvas h (fst offset) st))"

subsection \<open>The preview of \<open>ImageCropperWithDiv\<close>: CSS transforms\<close>

text \<open>
  The functions of a CSS \<open>transform\<close> list: \<open>scale(k)\<close>, \<open>rotate(a deg)\<close> and
  \<open>translate(tx px, ty px)\<close>. The matrix of a list is the product of the matrices of its
  functions from left to right, so the function written last acts on the element first.
\<close>

datatype transform_function = Scale real | Rotate real | Translate real real

fun matrix_of :: "transform_function \<Rightarrow> matrix" where
  "matrix_of (Scale k) = scaling k k"
| "matrix_of (Rotate deg) = rotation_by ((deg * pi) / 180)"
| "matrix_of (Translate tx ty) = translation tx ty"

definition transform_matrix :: "transform_function list \<Rightarrow> matrix" where
  "transform_matrix fs = foldl (\<lambda>M f. multiply M (matrix_of f)) identity fs"

datatype css_length = Px real | Percent real

record style =
  height :: css_length
  width :: css_length
  transform :: "transform_function list"

subsection \<open>\<open>ImageCropperWithDiv\<close>\<close>

text \<open>
  The \<open>useState\<close> cells of both versions of the component. The version without state
  props destructures them as \<open>[imageSrc, setImageSrc]\<close>, \<open>[zoom, setZoom]\<close>,
  \<open>[rotation, setRotation]\<close> and \<open>[pan, setPan]\<close>.
\<close>

record states =
  imageState :: string
  zoomState :: real
  rotationState :: real
  panState :: Vector2
  imageDimensions :: "real \<times> real"

definition initial_states :: states where
  "initial_states =
     \<lparr>imageState = '''', zoomState = 1, rotationState = 0,
      panState = \<lparr>vec_x = 0, vec_y = 0\<rparr>, imageDimensions = (0, 0)\<rparr>"

text \<open>
  A quotient that is stored in the state: for a zero divisor JavaScript yields an
  infinity or NaN, which is no \<open>real\<close>, and the model returns \<open>None\<close>.
\<close>

definition quotient :: "real \<Rightarrow> real \<Rightarrow> real option" where
  "quotient a b = (if b = 0 then None else Some (a / b))"

subsubsection \<open>The version that always downloads\<close>

definition handleZoomChange_Div :: "real \<Rightarrow> states \<Rightarrow> states" where
  "handleZoomChange_Div v st = (let newZoom = max 0.25 v in st\<lparr>zoomState := newZoom\<rparr>)"

definition handleRotationChange_Div :: "real \<Rightarrow> states \<Rightarrow> states" where
  "handleRotationChange_Div v st = st\<lparr>rotationState := v\<rparr>"

definition handlePanXChange_Div :: "real \<Rightarrow> states \<Rightarrow> states" where
  "handlePanXChange_Div v st = st\<lparr>panState := (panState st)\<lparr>vec_x := v\<rparr>\<rparr>"

definition handlePanYChange_Div :: "real \<Rightarrow> states \<Rightarrow> states" where
  "handlePanYChange_Div v st = st\<lparr>panState := (panState st)\<lparr>vec_y := v\<rparr>\<rparr>"

text \<open>The effect on \<open>[imageSrc]\<close>: \<open>image.onload\<close> stores the image's dimensions.\<close>

definition imageEffect_Div :: "host \<Rightarrow> states \<Rightarrow> states" where
  "imageEffect_Div h st =
     (case imageLoad h (imageState st) of
        None \<Rightarrow> st
      | Some dims \<Rightarrow> st\<lparr>imageDimensions := dims\<rparr>)"

definition handleImageChange_Div :: "file_event \<Rightarrow> states \<Rightarrow> states" where
  "handleImageChange_Div e st =
     (case e of
        NoFile \<Rightarrow> st
      | File None \<Rightarrow> st
      | File (Some dataUrl) \<Rightarrow>
          handleRotationChange_Div 0
            (handleZoomChange_Div 1 (handlePanXChange_Div 0 (st\<lparr>imageState := dataUrl\<rparr>))))"

text \<open>
  The body of \<open>image.onload\<close> in \<open>updateCanvas\<close>: the canvas as it is when
  \<open>toDataURL\<close> reads it. \<open>size / canvasContainerDims.width\<close> is divided in \<open>real\<close>.
\<close>

definition onload_Div :: "real option \<Rightarrow> host \<Rightarrow> real \<times> real \<Rightarrow> states \<Rightarrow> canvas" where
  "onload_Div resolutionPx h dims st =
     (let width = fst dims; height = snd dims;
          size = (case resolutionPx of Some r \<Rightarrow> r | None \<Rightarrow> min width height);
          sWidth = width; sHeight = height; sx = 0; sy = 0;
          dWidth = sWidth; dHeight = sHeight;
          dx = - dWidth / 2; dy = - dHeight / 2;
          normalizedPan =
            \<lparr>vec_x = vec_x (panState st) * (size / fst (containerDims h)) * zoomState st,
             vec_y = vec_y (panState st) * (size / snd (containerDims h)) * zoomState st\<rparr>;
          ctm = scale (zoomState st) (zoomState st)
                  (rotate ((rotationState st * pi) / 180)
                    (translate (size / 2 + vec_x normalizedPan)
                               (size / 2 + vec_y normalizedPan) identity))
      in \<lparr>c_width = canvas_dimension 300 size, c_height = canvas_dimension 150 size,
          c_content = [\<lparr>d_image = imageState st, d_sx = sx, d_sy = sy, d_sWidth = sWidth,
                         d_sHeight = sHeight, d_dx = dx, d_dy = dy, d_dWidth = dWidth,
                         d_dHeight = dHeight, d_transform = ctm\<rparr>]\<rparr>)"

text \<open>
  \<open>updateCanvas(element)\<close> as \<open>handleSubmit\<close> calls it: the element is the canvas just
  created, so only the context can be missing.
\<close>

definition updateCanvas_Div :: "real option \<Rightarrow> host \<Rightarrow> states \<Rightarrow> action list" where
  "updateCanvas_Div resolutionPx h st =
     (if \<not> context2d h then []
      else case imageLoad h (imageState st) of
             None \<Rightarrow> []
           | Some dims \<Rightarrow> [Download (toDataURL h (onload_Div resolutionPx h dims st))])"

definition handleSubmit_Div :: "real option \<Rightarrow> host \<Rightarrow> states \<Rightarrow> action list" where
  "handleSubmit_Div resolutionPx h st = updateCanvas_Div resolutionPx h st"

definition onDrag_Div :: "real \<times> real \<Rightarrow> states \<Rightarrow> states option" where
  "onDrag_Div delta st =
     (case (quotient (fst delta) (zoomState st), quotient (snd delta) (zoomState st)) of
        (Some qx, Some qy) \<Rightarrow>
          Some (handlePanYChange_Div (vec_y (panState st) + qy)
                 (handlePanXChange_Div (vec_x (panState st) + qx) st))
      | _ \<Rightarrow> None)"

definition onPinch_Div :: "real \<times> real \<Rightarrow> states \<Rightarrow> states" where
  "onPinch_Div delta st = handleZoomChange_Div (zoomState st + fst delta) st"

text \<open>
  The preview element, when it is rendered: \<open>imageSrc\<close> is not empty and \<open>imageRatio\<close> is
  truthy, which is the case exactly when the stored width is not 0.
\<close>

definition preview_Div :: "host \<Rightarrow> states \<Rightarrow> style option" where
  "preview_Div h st =
     (let imageRatio = fst (imageDimensions st) / snd (imageDimensions st)
      in if imageState st \<noteq> [] \<and> fst (imageDimensions st) \<noteq> 0
         then Some
           \<lparr>height = (if snd (imageDimensions st) > fst (imageDimensions st)
                      then Px (snd (containerDims h) / imageRatio) else Percent 100),
            width = (if snd (imageDimensions st) > fst (imageDimensions st)
                     then Percent 100 else Px (fst (containerDims h) * imageRatio)),
            transform =
              [Scale (zoomState st), Rotate (rotationState st),
               Translate (vec_x (panState st)) (vec_y (panState st))]\<rparr>
         else None)"

subsubsection \<open>The version with state props and \<open>onCrop\<close>\<close>

text \<open>
  The props. An optional value is \<open>None\<close> when the caller left it out; for a setter and
  for \<open>onCrop\<close> the model keeps whether the caller passed one, and a call of it is an
  \<open>action\<close>. The props stay the same from one render to the next.
\<close>

record props =
  p_zoom :: "real option"
  p_setZoom :: bool
  p_rotation :: "real option"
  p_setRotation :: bool
  p_imageSrc :: "string option"
  p_setImageSrc :: bool
  p_pan :: "Vector2 option"
  p_setPan :: bool
  p_resolutionPx :: "real option"
  p_onCrop :: bool

text \<open>\<open>const zoom = props.zoom ?? zoomState[0]\<close>, and the same for the other three.\<close>

definition imageSrc_DivP :: "props \<Rightarrow> states \<Rightarrow> string" where
  "imageSrc_DivP p st = (case p_imageSrc p of Some s \<Rightarrow> s | None \<Rightarrow> imageState st)"

definition zoom_DivP :: "props \<Rightarrow> states \<Rightarrow> real" where
  "zoom_DivP p st = (case p_zoom p of Some z \<Rightarrow> z | None \<Rightarrow> zoomState st)"

definition rotation_DivP :: "props \<Rightarrow> states \<Rightarrow> real" where
  "rotation_DivP p st = (case p_rotation p of Some r \<Rightarrow> r | None \<Rightarrow> rotationState st)"

definition pan_DivP :: "props \<Rightarrow> states \<Rightarrow> Vector2" where
  "pan_DivP p st = (case p_pan p of Some v \<Rightarrow> v | None \<Rightarrow> panState st)"

text \<open>
  \<open>const setZoom = props.setZoom ?? zoomState[1]\<close>, and the same for the other three. A
  handler maps the state and the calls made so far to the state and the calls after it.
\<close>

fun setImageSrc_DivP :: "props \<Rightarrow> string \<Rightarrow> states \<times> action list \<Rightarrow> states \<times> action list" where
  "setImageSrc_DivP p v (st, out) =
     (if p_setImageSrc p then (st, out @ [SetImageSrc v]) else (st\<lparr>imageState := v\<rparr>, out))"

fun setZoom_DivP :: "props \<Rightarrow> real \<Rightarrow> states \<times> action list \<Rightarrow> states \<times> action list" where
  "setZoom_DivP p v (st, out) =
     (if p_setZoom p then (st, out @ [SetZoom v]) else (st\<lparr>zoomState := v\<rparr>, out))"

fun setRotation_DivP :: "props \<Rightarrow> real \<Rightarrow> states \<times> action list \<Rightarrow> states \<times> action list" where
  "setRotation_DivP p v (st, out) =
     (if p_setRotation p then (st, out @ [SetRotation v]) else (st\<lparr>rotationState := v\<rparr>, out))"

definition handleZoomChange_DivP :: "props \<Rightarrow> real \<Rightarrow> states \<times> action list \<Rightarrow> states \<times> action list" where
  "handleZoomChange_DivP p v sa = (let newZoom = max 0.25 v in setZoom_DivP p newZoom sa)"

definition handleRotationChange_DivP :: "props \<Rightarrow> real \<Rightarrow> states \<times> action list \<Rightarrow> states \<times> action list" where
  "handleRotationChange_DivP p v sa = (let newRotation = v in setRotation_DivP p newRotation sa)"

fun handlePanXChange_DivP :: "props \<Rightarrow> real \<Rightarrow> states \<times> action list \<Rightarrow> states \<times> action list" where
  "handlePanXChange_DivP p v (st, out) =
     (if p_setPan p then (st, out @ [SetPanX v])
      else (st\<lparr>panState := (panState st)\<lparr>vec_x := v\<rparr>\<rparr>, out))"

fun handlePanYChange_DivP :: "props \<Rightarrow> real \<Rightarrow> states \<times> action list \<Rightarrow> states \<times> action list" where
  "handlePanYChange_DivP p v (st, out) =
     (if p_setPan p then (st, out @ [SetPanY v])
      else (st\<lparr>panState := (panState st)\<lparr>vec_y := v\<rparr>\<rparr>, out))"

definition imageEffect_DivP :: "host \<Rightarrow> props \<Rightarrow> states \<Rightarrow> states" where
  "imageEffect_DivP h p st =
     (if imageSrc_DivP p st = [] then st
      else case imageLoad h (imageSrc_DivP p st) of
             None \<Rightarrow> st
           | Some dims \<Rightarrow> st\<lparr>imageDimensions := dims\<rparr>)"

definition handleImageChange_DivP :: "props \<Rightarrow> file_event \<Rightarrow> states \<times> action list \<Rightarrow> states \<times> action list" where
  "handleImageChange_DivP p e sa =
     (case e of
        NoFile \<Rightarrow> sa
      | File None \<Rightarrow> sa
      | File (Some dataUrl) \<Rightarrow>
          handleRotationChange_DivP p 0
            (handleZoomChange_DivP p 1
              (handlePanXChange_DivP p 0 (setImageSrc_DivP p dataUrl sa))))"

text \<open>The body of \<open>image.onload\<close> in \<open>drawToCanvas\<close>, up to \<open>drawImage\<close>.\<close>

definition onload_DivP :: "host \<Rightarrow> props \<Rightarrow> real \<times> real \<Rightarrow> states \<Rightarrow> canvas" where
  "onload_DivP h p dims st =
     (let width = fst dims; height = snd dims;
          size = (case p_resolutionPx p of Some r \<Rightarrow> r | None \<Rightarrow> min width height);
          sWidth = width; sHeight = height; sx = 0; sy = 0;
          dWidth = sWidth; dHeight = sHeight;
          dx = - dWidth / 2; dy = - dHeight / 2;
          normalizedPan =
            \<lparr>vec_x = vec_x (pan_DivP p st) * (size / fst (containerDims h)) * zoom_DivP p st,
             vec_y = vec_y (pan_DivP p st) * (size / snd (containerDims h)) * zoom_DivP p st\<rparr>;
          ctm = scale (zoom_DivP p st) (zoom_DivP p st)
                  (rotate ((rotation_DivP p st * pi) / 180)
                    (translate (size / 2 + vec_x normalizedPan)
                               (size / 2 + vec_y normalizedPan) identity))
      in \<lparr>c_width = canvas_dimension 300 size, c_height = canvas_dimension 150 size,
          c_content = [\<lparr>d_image = imageSrc_DivP p st, d_sx = sx, d_sy = sy,
                         d_sWidth = sWidth, d_sHeight = sHeight, d_dx = dx, d_dy = dy,
                         d_dWidth = dWidth, d_dHeight = dHeight, d_transform = ctm\<rparr>]\<rparr>)"

text \<open>
  \<open>drawToCanvas\<close>: the canvas is the element just created, so only the context can be
  missing; the rest runs when the image has loaded.
\<close>

definition drawToCanvas_DivP :: "host \<Rightarrow> props \<Rightarrow> states \<Rightarrow> action list" where
  "drawToCanvas_DivP h p st =
     (if \<not> context2d h then []
      else case imageLoad h (imageSrc_DivP p st) of
             None \<Rightarrow> []
           | Some dims \<Rightarrow>
               (let croppedImage = toDataURL h (onload_DivP h p dims st)
                in if p_onCrop p then [OnCrop croppedImage] else [Download croppedImage]))"

definition handleSubmit_DivP :: "host \<Rightarrow> props \<Rightarrow> states \<Rightarrow> action list" where
  "handleSubmit_DivP h p st = drawToCanvas_DivP h p st"

fun onDrag_DivP :: "props \<Rightarrow> real \<times> real \<Rightarrow> states \<times> action list \<Rightarrow> (states \<times> action list) option" where
  "onDrag_DivP p delta (st, out) =
     (case (quotient (fst delta) (zoom_DivP p st), quotient (snd delta) (zoom_DivP p st)) of
        (Some qx, Some qy) \<Rightarrow>
          Some (handlePanYChange_DivP p (vec_y (pan_DivP p st) + qy)
                 (handlePanXChange_DivP p (vec_x (pan_DivP p st) + qx) (st, out)))
      | _ \<Rightarrow> None)"

fun onPinch_DivP :: "props \<Rightarrow> real \<times> real \<Rightarrow> states \<times> action list \<Rightarrow> states \<times> action list" where
  "onPinch_DivP p delta (st, out) =
     handleZoomChange_DivP p (zoom_DivP p st + fst delta) (st, out)"

definition preview_DivP :: "host \<Rightarrow> props \<Rightarrow> states \<Rightarrow> style option" where
  "preview_DivP h p st =
     (let imageRatio = fst (imageDimensions st) / snd (imageDimensions st)
      in if imageSrc_DivP p st \<noteq> [] \<and> fst (imageDimensions st) \<noteq> 0
         then Some
           \<lparr>height = (if snd (imageDimensions st) > fst (imageDimensions st)
                      then Px (snd (containerDims h) / imageRatio) else Percent 100),
            width = (if snd (imageDimensions st) > fst (imageDimensions st)
                     then Percent 100 else Px (fst (containerDims h) * imageRatio)),
            transform =
              [Scale (zoom_DivP p st), Rotate (rotation_DivP p st),
               Translate (vec_x (pan_DivP p st)) (vec_y (pan_DivP p st))]\<rparr>
         else None)"

text \<open>
  The events of the component and one step of it: the handler of the event, run on the
  state of the last render, with the effect on the image source after an upload.
\<close>

datatype event =
    ImageChange file_event
  | ZoomSlider real
  | RotationSlider real
  | PanXSlider real
  | PanYSlider real
  | Drag "real \<times> real"
  | Pinch "real \<times> real"
  | Submit

fun step_DivP :: "host \<Rightarrow> props \<Rightarrow> event \<Rightarrow> states \<Rightarrow> (states \<times> action list) option" where
  "step_DivP h p (ImageChange e) st =
     (case handleImageChange_DivP p e (st, []) of
        (st', out) \<Rightarrow> Some (imageEffect_DivP h p st', out))"
| "step_DivP h p (ZoomSlider v) st = Some (handleZoomChange_DivP p v (st, []))"
| "step_DivP h p (RotationSlider v) st = Some (handleRotationChange_DivP p v (st, []))"
| "step_DivP h p (PanXSlider v) st = Some (handlePanXChange_DivP p v (st, []))"
| "step_DivP h p (PanYSlider v) st = Some (handlePanYChange_DivP p v (st, []))"
| "step_DivP h p (Drag delta) st = onDrag_DivP p delta (st, [])"
| "step_DivP h p (Pinch delta) st = Some (onPinch_DivP p delta (st, []))"
| "step_DivP h p Submit st = Some (st, handleSubmit_DivP h p st)"

text \<open>The states the component can be in: the initial one and what a step leads to.\<close>

inductive reachable_DivP :: "host \<Rightarrow> props \<Rightarrow> states \<Rightarrow> bool" for h :: host and p :: props where
  initial: "reachable_DivP h p initial_states"
| step: "reachable_DivP h p st \<Longrightarrow> step_DivP h p ev st = Some (st', out) \<Longrightarrow> reachable_DivP h p st'"

subsection \<open>A page and props to run the components on\<close>

text \<open>
  A page with a 352 by 352 pixel preview container, on which every image source but the
  empty one loads as a 704 by 528 image; the same page without a 2D context; and a
  component used as \<open><ImageCropperWithDiv />\<close>, with no props.
\<close>

definition page :: host where
  "page =
     \<lparr>canvasElement = True, context2d = True, containerDims = (352, 352),
      containerRect = Some 352,
      imageLoad = (\<lambda>src. if src = [] then None else Some (704, 528)),
      toDataURL = (\<lambda>c. ''data:image/png;base64,'')\<rparr>"

definition page_without_context :: host where
  "page_without_context = page\<lparr>context2d := False\<rparr>"

definition no_props :: props where
  "no_props =
     \<lparr>p_zoom = None, p_setZoom = False, p_rotation = None, p_setRotation = False,
      p_imageSrc = None, p_setImageSrc = False, p_pan = None, p_setPan = False,
      p_resolutionPx = None, p_onCrop = False\<rparr>"

text \<open>A component whose caller holds the pan, at \<open>(3, 7)\<close>.\<close>

definition controlled_pan :: props where
  "controlled_pan = no_props\<lparr>p_pan := Some \<lparr>vec_x = 3, vec_y = 7\<rparr>, p_setPan := True\<rparr>"

text \<open>
  The component with no props after an upload on \<open>page\<close>, the rotation slider at 180 and
  the pan X slider at 10.
\<close>

definition turned :: states where
  "turned =
     \<lparr>imageState = ''data:,'', zoomState = 1, rotationState = 180,
      panState = \<lparr>vec_x = 10, vec_y = 0\<rparr>, imageDimensions = (704, 528)\<rparr>"

section \<open>Properties\<close>

subsection \<open>Unfolding the components\<close>

lemmas IC_defs =
  handleImageChange_IC_def updateCanvas_IC_def handleZoomChange_IC_def
  handleRotationChange_IC_def handlePanXChange_IC_def handlePanYChange_IC_def
  handleSubmit_IC_def trackpadGestureHandler_IC_def onDrag_IC_def onPinch_IC_def

lemmas Canvas_defs =
  handleImageChange_Canvas_def updateCanvas_Canvas_def handleZoomChange_Canvas_def
  handleRotationChange_Canvas_def handlePanXChange_Canvas_def handlePanYChange_Canvas_def
  handleSubmit_Canvas_def onDrag_Canvas_def onPinch_Canvas_def

lemmas Div_defs =
  handleImageChange_Div_def handleZoomChange_Div_def handleRotationChange_Div_def
  handlePanXChange_Div_def handlePanYChange_Div_def updateCanvas_Div_def
  handleSubmit_Div_def onDrag_Div_def onPinch_Div_def

lemmas DivP_defs =
  handleImageChange_DivP_def handleZoomChange_DivP_def handleRotationChange_DivP_def
  drawToCanvas_DivP_def handleSubmit_DivP_def
  imageSrc_DivP_def zoom_DivP_def rotation_DivP_def pan_DivP_def

lemmas matrix_defs =
  identity_def apply_matrix_def multiply_def translation_def rotation_by_def scaling_def
  translate_def rotate_def scale_def

lemmas canvas_defs = canvas_dimension_def toUnsignedLong_def integerPart_def

lemmas example_defs =
  page_def page_without_context_def no_props_def initial_states_def initial_refs_def

subsection \<open>Upload\<close>

text \<open>
  Claim C1, as stated, at two inputs, each an upload that reads as a data URL on a state
  panned to \<open>(3, 7)\<close>. The ref-based \<open>ImageCropper\<close> ends with zoom 0.5, not 1, and with the
  pan still at \<open>(3, 7)\<close>. \<open>ImageCropperWithDiv\<close> used without props ends with the pan at
  \<open>(0, 7)\<close>, not at \<open>(0, 0)\<close>: \<open>handleImageChange\<close> calls \<open>handlePanXChange(0)\<close> and no
  \<open>handlePanYChange(0)\<close>.
\<close>

theorem handleImageChange_not_all_defaults:
  "zoom (handleImageChange_IC page (File (Some ''data:,''))
       (initial_refs\<lparr>pan := \<lparr>vec_x = 3, vec_y = 7\<rparr>\<rparr>)) = 0.5 \<and>
   pan (handleImageChange_IC page (File (Some ''data:,''))
       (initial_refs\<lparr>pan := \<lparr>vec_x = 3, vec_y = 7\<rparr>\<rparr>)) = \<lparr>vec_x = 3, vec_y = 7\<rparr> \<and>
   panState (fst (handleImageChange_DivP no_props (File (Some ''data:,''))
       (initial_states\<lparr>panState := \<lparr>vec_x = 3, vec_y = 7\<rparr>\<rparr>, [])))
     = \<lparr>vec_x = 0, vec_y = 7\<rparr>"
  by (simp add: IC_defs DivP_defs example_defs Let_def)

text \<open>
  Claim C1, amended. After an upload whose file reads as a data URL, \<open>handleImageChange\<close>
  has set rotation to 0 in every component. In both versions of \<open>ImageCropperWithDiv\<close>
  and in the canvas cropper with \<open>resolutionPx\<close> it has set zoom to 1, the x component of
  the pan to 0 and the image source to the data URL (in the version with state props:
  through the caller's setter where one was passed). In the ref-based \<open>ImageCropper\<close> it
  has set zoom to 0.5 and the image source to the data URL, and the pan is what it was.
\<close>

theorem handleImageChange_resets:
  "(zoomState (handleImageChange_Div (File (Some url)) s) = 1 \<and>
    rotationState (handleImageChange_Div (File (Some url)) s) = 0 \<and>
    vec_x (panState (handleImageChange_Div (File (Some url)) s)) = 0 \<and>
    imageState (handleImageChange_Div (File (Some url)) s) = url) \<and>
   ((if p_setZoom p
     then SetZoom 1 \<in> set (snd (handleImageChange_DivP p (File (Some url)) (s, [])))
     else zoomState (fst (handleImageChange_DivP p (File (Some url)) (s, []))) = 1) \<and>
    (if p_setRotation p
     then SetRotation 0 \<in> set (snd (handleImageChange_DivP p (File (Some url)) (s, [])))
     else rotationState (fst (handleImageChange_DivP p (File (Some url)) (s, []))) = 0) \<and>
    (if p_setPan p
     then SetPanX 0 \<in> set (snd (handleImageChange_DivP p (File (Some url)) (s, [])))
     else vec_x (panState (fst (handleImageChange_DivP p (File (Some url)) (s, [])))) = 0) \<and>
    (if p_setImageSrc p
     then SetImageSrc url \<in> set (snd (handleImageChange_DivP p (File (Some url)) (s, [])))
     else imageState (fst (handleImageChange_DivP p (File (Some url)) (s, []))) = url)) \<and>
   (zoom (handleImageChange_Canvas h (File (Some url)) r) = 1 \<and>
    rotation (handleImageChange_Canvas h (File (Some url)) r) = 0 \<and>
    vec_x (pan (handleImageChange_Canvas h (File (Some url)) r)) = 0 \<and>
    imageSrc (handleImageChange_Canvas h (File (Some url)) r) = url) \<and>
   (zoom (handleImageChange_IC h (File (Some url)) r) = 0.5 \<and>
    rotation (handleImageChange_IC h (File (Some url)) r) = 0 \<and>
    pan (handleImageChange_IC h (File (Some url)) r) = pan r \<and>
    imageSrc (handleImageChange_IC h (File (Some url)) r) = url)"
proof -
  have div: "zoomState (handleImageChange_Div (File (Some url)) s) = 1 \<and>
      rotationState (handleImageChange_Div (File (Some url)) s) = 0 \<and>
      vec_x (panState (handleImageChange_Div (File (Some url)) s)) = 0 \<and>
      imageState (handleImageChange_Div (File (Some url)) s) = url"
    by (simp add: Div_defs Let_def)
  have divp: "(if p_setZoom p
       then SetZoom 1 \<in> set (snd (handleImageChange_DivP p (File (Some url)) (s, [])))
       else zoomState (fst (handleImageChange_DivP p (File (Some url)) (s, []))) = 1) \<and>
      (if p_setRotation p
       then SetRotation 0 \<in> set (snd (handleImageChange_DivP p (File (Some url)) (s, [])))
       else rotationState (fst (handleImageChange_DivP p (File (Some url)) (s, []))) = 0) \<and>
      (if p_setPan p
       then SetPanX 0 \<in> set (snd (handleImageChange_DivP p (File (Some url)) (s, [])))
       else vec_x (panState (fst (handleImageChange_DivP p (File (Some url)) (s, [])))) = 0) \<and>
      (if p_setImageSrc p
       then SetImageSrc url \<in> set (snd (handleImageChange_DivP p (File (Some url)) (s, [])))
       else imageState (fst (handleImageChange_DivP p (File (Some url)) (s, []))) = url)"
    by (simp add: DivP_defs Let_def)
  have canvas: "zoom (handleImageChange_Canvas h (File (Some url)) r) = 1 \<and>
      rotation (handleImageChange_Canvas h (File (Some url)) r) = 0 \<and>
      vec_x (pan (handleImageChange_Canvas h (File (Some url)) r)) = 0 \<and>
      imageSrc (handleImageChange_Canvas h (File (Some url)) r) = url"
    by (simp add: Canvas_defs Let_def)
  have ic: "zoom (handleImageChange_IC h (File (Some url)) r) = 0.5 \<and>
      rotation (handleImageChange_IC h (File (Some url)) r) = 0 \<and>
      pan (handleImageChange_IC h (File (Some url)) r) = pan r \<and>
      imageSrc (handleImageChange_IC h (File (Some url)) r) = url"
    by (simp add: IC_defs Let_def)
  from div divp canvas ic show ?thesis by (intro conjI) blast+
qed

theorem handleImageChange_resets_witness:
  "zoomState (fst (handleImageChange_DivP no_props (File (Some ''data:,''))
       (initial_states\<lparr>zoomState := 1.3, rotationState := 45\<rparr>, []))) = 1 \<and>
   rotationState (fst (handleImageChange_DivP no_props (File (Some ''data:,''))
       (initial_states\<lparr>zoomState := 1.3, rotationState := 45\<rparr>, []))) = 0 \<and>
   zoom (handleImageChange_IC page (File (Some ''data:,''))
       (initial_refs\<lparr>zoom := 1.3, rotation := 45\<rparr>)) = 0.5"
  using handleImageChange_resets
          [of "''data:,''" "initial_states\<lparr>zoomState := 1.3, rotationState := 45\<rparr>" no_props
              page "initial_refs\<lparr>zoom := 1.3, rotation := 45\<rparr>"]
  by (simp add: no_props_def)

subsection \<open>\<open>ImageCropper\<close>: the reset before the file check\<close>

text \<open>
  Claim C8. In the canvas-based \<open>ImageCropper\<close>, \<open>handleImageChange\<close> sets zoom to 0.5 and
  rotation to 0 whatever the event carries: the two assignments come before the file
  check, so an event without a file returns the state with just these two refs
  overwritten (pan, image source, canvas and pending loads untouched).
\<close>

theorem handleImageChange_IC_resets_before_file_check:
  "zoom (handleImageChange_IC h e r) = 0.5 \<and>
   rotation (handleImageChange_IC h e r) = 0 \<and>
   handleImageChange_IC h NoFile r = r\<lparr>zoom := 0.5, rotation := 0\<rparr>"
  by (simp add: handleImageChange_IC_def updateCanvas_IC_def Let_def
      split: file_event.split option.split)

theorem handleImageChange_IC_resets_before_file_check_witness:
  "zoom (initial_refs\<lparr>zoom := 1.3, rotation := 45\<rparr>) \<noteq> 0.5 \<and>
   zoom (handleImageChange_IC page NoFile (initial_refs\<lparr>zoom := 1.3, rotation := 45\<rparr>)) = 0.5 \<and>
   rotation (handleImageChange_IC page NoFile (initial_refs\<lparr>zoom := 1.3, rotation := 45\<rparr>)) = 0"
  using handleImageChange_IC_resets_before_file_check
          [of page NoFile "initial_refs\<lparr>zoom := 1.3, rotation := 45\<rparr>"]
  by simp

subsection \<open>The zoom minimum\<close>

text \<open>
  Claim C2 says that every zoom handler stores \<open>max(0.25, v)\<close> and that no operation
  leaves zoom below 0.25. The ref-based \<open>ImageCropper\<close> at an input: a pinch whose scale
  offset is 0.1 leaves zoom at 0.1, and the slider handler called with \<open>[0.1]\<close> stores 0.1;
  of its handlers only the wheel listener applies the minimum (from zoom 1, a
  \<open>deltaY\<close> of 90 gives 0.25, not 0.1).
\<close>

theorem zoom_IC_below_minimum:
  "zoom (onPinch_IC page (0.1, 0) initial_refs) = 0.1 \<and>
   map_option zoom (handleZoomChange_IC page [0.1] initial_refs) = Some 0.1 \<and>
   zoom (trackpadGestureHandler_IC page True 90 initial_refs) = 0.25"
  by (simp add: IC_defs example_defs)

theorem zoom_IC_below_minimum_witness:
  "zoom (onPinch_IC page (0.1, 0) initial_refs) < 0.25 \<and>
   zoom (onPinch_IC page (0.1, 0) initial_refs) \<noteq> max 0.25 0.1"
  using zoom_IC_below_minimum by simp

subsection \<open>Preview and export\<close>

text \<open>
  Where the preview and the export put the centre of the image. The export draws the
  image with its centre at the origin of user space (\<open>dx = -dWidth / 2\<close>), so the matrix of
  the draw call applied to the origin is the centre on the canvas; the preview's
  transform applied to the origin is the centre's offset from the middle of the container.

  Claim C3 says that the two agree up to the factor between container and canvas. At an
  input: no props, a 704 by 528 image, a 352 pixel container, zoom 1, rotation 180 and pan
  \<open>(10, 0)\<close>. The canvas has side 528, a factor of 1.5. The preview moves the centre by
  \<open>(-10, 0)\<close>: the translation is inside the rotation. The export draws the centre at
  \<open>(279, 264)\<close>, 15 canvas pixels to the right of the middle, where 15 to the left,
  \<open>(249, 264)\<close>, would agree with the preview. Both versions of \<open>ImageCropperWithDiv\<close> do so.
\<close>

theorem export_differs_from_preview_when_rotated:
  "map (\<lambda>d. apply_matrix (d_transform d) (0, 0))
       (c_content (onload_DivP page no_props (704, 528) turned)) = [(279, 264)] \<and>
   map_option (\<lambda>s. apply_matrix (transform_matrix (transform s)) (0, 0))
       (preview_DivP page no_props turned) = Some (- 10, 0) \<and>
   map (\<lambda>d. apply_matrix (d_transform d) (0, 0))
       (c_content (onload_Div None page (704, 528) turned)) = [(279, 264)] \<and>
   map_option (\<lambda>s. apply_matrix (transform_matrix (transform s)) (0, 0))
       (preview_Div page turned) = Some (- 10, 0)"
proof -
  have export_DivP: "map (\<lambda>d. apply_matrix (d_transform d) (0, 0))
      (c_content (onload_DivP page no_props (704, 528) turned)) = [(279, 264)]"
    by (simp add: onload_DivP_def Let_def DivP_defs example_defs turned_def matrix_defs)
  have preview_DivP: "map_option (\<lambda>s. apply_matrix (transform_matrix (transform s)) (0, 0))
      (preview_DivP page no_props turned) = Some (- 10, 0)"
    by (simp add: preview_DivP_def Let_def DivP_defs example_defs turned_def
        transform_matrix_def matrix_defs)
  have export_Div: "map (\<lambda>d. apply_matrix (d_transform d) (0, 0))
      (c_content (onload_Div None page (704, 528) turned)) = [(279, 264)]"
    by (simp add: onload_Div_def Let_def example_defs turned_def matrix_defs)
  have preview_Div: "map_option (\<lambda>s. apply_matrix (transform_matrix (transform s)) (0, 0))
      (preview_Div page turned) = Some (- 10, 0)"
    by (simp add: preview_Div_def Let_def example_defs turned_def transform_matrix_def
        matrix_defs)
  from export_DivP preview_DivP export_Div preview_Div show ?thesis by blast
qed

theorem export_differs_from_preview_when_rotated_witness:
  "map (\<lambda>d. apply_matrix (d_transform d) (0, 0))
       (c_content (onload_DivP page no_props (704, 528) turned))
     \<noteq> [(528 / 2 + 528 / 352 * (- 10), 528 / 2 + 528 / 352 * 0)]"
  using export_differs_from_preview_when_rotated by simp

subsection \<open>The side of the exported canvas\<close>

text \<open>
  Claim C4, as stated, at an input: the canvas cropper with \<open>resolutionPx\<close>, used without
  it on a page whose container is 352 pixels wide, gives a 704 by 528 image a canvas of
  side 352, not of side 528, the image's smaller dimension.
\<close>

theorem canvas_side_Canvas_is_container_width:
  "c_width (onload_Canvas None page ''data:,'' (704, 528) initial_refs) = 352 \<and>
   c_height (onload_Canvas None page ''data:,'' (704, 528) initial_refs) = 352 \<and>
   min 704 528 = (528::real)"
  by (simp add: onload_Canvas_def Let_def example_defs canvas_dimension_def
      toUnsignedLong_def integerPart_def)

text \<open>A number from 0 up to \<open>2^31\<close> is stored as its integer part, whatever the default.\<close>

lemma canvas_dimension_in_range:
  assumes "0 \<le> v" and "v < 2147483648"
  shows "canvas_dimension d v = \<lfloor>v\<rfloor>"
proof -
  from assms(1) have nonneg: "0 \<le> \<lfloor>v\<rfloor>" by simp
  from assms(2) have below: "\<lfloor>v\<rfloor> < 2147483648" by (simp add: floor_less_iff)
  from assms(1) have "toUnsignedLong v = \<lfloor>v\<rfloor> mod 4294967296"
    by (simp add: toUnsignedLong_def integerPart_def)
  with nonneg below have "toUnsignedLong v = \<lfloor>v\<rfloor>" by simp
  with below show ?thesis by (simp add: canvas_dimension_def)
qed

lemma canvas_dimension_of_nat:
  assumes "n < 2147483648"
  shows "canvas_dimension d (real n) = int n"
proof -
  from assms have "real n < 2147483648" by simp
  then have "canvas_dimension d (real n) = \<lfloor>real n\<rfloor>"
    by (intro canvas_dimension_in_range) simp_all
  then show ?thesis by simp
qed

text \<open>
  Claim C4, amended. In every component the width and the height of the canvas are set
  from one number, \<open>size\<close>. In both versions of \<open>ImageCropperWithDiv\<close> it is \<open>resolutionPx\<close>
  when that is provided, and otherwise the smaller of the image's width and height. The
  ref-based \<open>ImageCropper\<close> has no \<open>resolutionPx\<close>; there it is the smaller of the image's
  width and height. In the canvas cropper with \<open>resolutionPx\<close> it is \<open>resolutionPx\<close> when
  that is provided, otherwise the width of the preview container, and 512 while there is no
  container. The canvas stores \<open>size\<close> as an \<open>unsigned long\<close>: for \<open>size\<close> from 0 up to \<open>2^31\<close>
  the canvas is square and its side is the integer part of \<open>size\<close>. So for an image of
  \<open>w\<close> by \<open>h\<close> pixels, the smaller of the two below \<open>2^31\<close>, the side is exactly
  \<open>min(w, h)\<close> in the ref-based \<open>ImageCropper\<close> and, without \<open>resolutionPx\<close>, in
  \<open>ImageCropperWithDiv\<close>. A \<open>size\<close> that the conversion takes above 2147483647 leaves the
  canvas at its default, 300 by 150.
\<close>

theorem canvas_side:
  "(c_width (onload_DivP h p (wd, ht) s) =
      canvas_dimension 300 (case p_resolutionPx p of Some px \<Rightarrow> px | None \<Rightarrow> min wd ht) \<and>
    c_height (onload_DivP h p (wd, ht) s) =
      canvas_dimension 150 (case p_resolutionPx p of Some px \<Rightarrow> px | None \<Rightarrow> min wd ht)) \<and>
   (c_width (onload_Div resolutionPx h (wd, ht) s) =
      canvas_dimension 300 (case resolutionPx of Some px \<Rightarrow> px | None \<Rightarrow> min wd ht) \<and>
    c_height (onload_Div resolutionPx h (wd, ht) s) =
      canvas_dimension 150 (case resolutionPx of Some px \<Rightarrow> px | None \<Rightarrow> min wd ht)) \<and>
   (c_width (onload_IC img (wd, ht) r) = canvas_dimension 300 (min wd ht) \<and>
    c_height (onload_IC img (wd, ht) r) = canvas_dimension 150 (min wd ht)) \<and>
   (c_width (onload_Canvas resolutionPx h img (wd, ht) r) =
      canvas_dimension 300
        (case resolutionPx of
           Some px \<Rightarrow> px
         | None \<Rightarrow> (case containerRect h of Some cw \<Rightarrow> cw | None \<Rightarrow> 512)) \<and>
    c_height (onload_Canvas resolutionPx h img (wd, ht) r) =
      canvas_dimension 150
        (case resolutionPx of
           Some px \<Rightarrow> px
         | None \<Rightarrow> (case containerRect h of Some cw \<Rightarrow> cw | None \<Rightarrow> 512))) \<and>
   (0 \<le> v \<and> v < 2147483648 \<longrightarrow>
      canvas_dimension 300 v = \<lfloor>v\<rfloor> \<and> canvas_dimension 150 v = \<lfloor>v\<rfloor>) \<and>
   (toUnsignedLong v > 2147483647 \<longrightarrow>
      canvas_dimension 300 v = 300 \<and> canvas_dimension 150 v = 150) \<and>
   (min nw nh < 2147483648 \<longrightarrow>
      (c_width (onload_IC img (real nw, real nh) r) = int (min nw nh) \<and>
       c_height (onload_IC img (real nw, real nh) r) = int (min nw nh)) \<and>
      (c_width (onload_Div None h (real nw, real nh) s) = int (min nw nh) \<and>
       c_height (onload_Div None h (real nw, real nh) s) = int (min nw nh)) \<and>
      (p_resolutionPx p = None \<longrightarrow>
         c_width (onload_DivP h p (real nw, real nh) s) = int (min nw nh) \<and>
         c_height (onload_DivP h p (real nw, real nh) s) = int (min nw nh)))"
proof -
  have sizes: "(c_width (onload_DivP h p (wd, ht) s) =
        canvas_dimension 300 (case p_resolutionPx p of Some px \<Rightarrow> px | None \<Rightarrow> min wd ht) \<and>
      c_height (onload_DivP h p (wd, ht) s) =
        canvas_dimension 150 (case p_resolutionPx p of Some px \<Rightarrow> px | None \<Rightarrow> min wd ht)) \<and>
     (c_width (onload_Div resolutionPx h (wd, ht) s) =
        canvas_dimension 300 (case resolutionPx of Some px \<Rightarrow> px | None \<Rightarrow> min wd ht) \<and>
      c_height (onload_Div resolutionPx h (wd, ht) s) =
        canvas_dimension 150 (case resolutionPx of Some px \<Rightarrow> px | None \<Rightarrow> min wd ht)) \<and>
     (c_width (onload_IC img (wd, ht) r) = canvas_dimension 300 (min wd ht) \<and>
      c_height (onload_IC img (wd, ht) r) = canvas_dimension 150 (min wd ht)) \<and>
     (c_width (onload_Canvas resolutionPx h img (wd, ht) r) =
        canvas_dimension 300
          (case resolutionPx of
             Some px \<Rightarrow> px
           | None \<Rightarrow> (case containerRect h of Some cw \<Rightarrow> cw | None \<Rightarrow> 512)) \<and>
      c_height (onload_Canvas resolutionPx h img (wd, ht) r) =
        canvas_dimension 150
          (case resolutionPx of
             Some px \<Rightarrow> px
           | None \<Rightarrow> (case containerRect h of Some cw \<Rightarrow> cw | None \<Rightarrow> 512)))"
    by (simp add: onload_DivP_def onload_Div_def onload_IC_def onload_Canvas_def Let_def)
  have in_range: "0 \<le> v \<and> v < 2147483648 \<longrightarrow>
      canvas_dimension 300 v = \<lfloor>v\<rfloor> \<and> canvas_dimension 150 v = \<lfloor>v\<rfloor>"
    by (simp add: canvas_dimension_in_range)
  have out_of_range: "toUnsignedLong v > 2147483647 \<longrightarrow>
      canvas_dimension 300 v = 300 \<and> canvas_dimension 150 v = 150"
    by (simp add: canvas_dimension_def)
  have images: "min nw nh < 2147483648 \<longrightarrow>
      (c_width (onload_IC img (real nw, real nh) r) = int (min nw nh) \<and>
       c_height (onload_IC img (real nw, real nh) r) = int (min nw nh)) \<and>
      (c_width (onload_Div None h (real nw, real nh) s) = int (min nw nh) \<and>
       c_height (onload_Div None h (real nw, real nh) s) = int (min nw nh)) \<and>
      (p_resolutionPx p = None \<longrightarrow>
         c_width (onload_DivP h p (real nw, real nh) s) = int (min nw nh) \<and>
         c_height (onload_DivP h p (real nw, real nh) s) = int (min nw nh))"
  proof
    assume "min nw nh < 2147483648"
    then have "canvas_dimension 300 (real (min nw nh)) = int (min nw nh)"
      and "canvas_dimension 150 (real (min nw nh)) = int (min nw nh)"
      by (rule canvas_dimension_of_nat)+
    moreover have "min (real nw) (real nh) = real (min nw nh)" by (simp add: min_def)
    ultimately show "(c_width (onload_IC img (real nw, real nh) r) = int (min nw nh) \<and>
       c_height (onload_IC img (real nw, real nh) r) = int (min nw nh)) \<and>
      (c_width (onload_Div None h (real nw, real nh) s) = int (min nw nh) \<and>
       c_height (onload_Div None h (real nw, real nh) s) = int (min nw nh)) \<and>
      (p_resolutionPx p = None \<longrightarrow>
         c_width (onload_DivP h p (real nw, real nh) s) = int (min nw nh) \<and>
         c_height (onload_DivP h p (real nw, real nh) s) = int (min nw nh))"
      by (simp add: onload_DivP_def onload_Div_def onload_IC_def Let_def)
  qed
  from sizes in_range out_of_range images show ?thesis by blast
qed

theorem canvas_side_witness:
  "c_width (onload_DivP page no_props (704, 528) turned) = 528 \<and>
   c_height (onload_DivP page no_props (704, 528) turned) = 528 \<and>
   c_width (onload_DivP page (no_props\<lparr>p_resolutionPx := Some 256\<rparr>) (704, 528) turned) = 256 \<and>
   c_width (onload_DivP page (no_props\<lparr>p_resolutionPx := Some (- 1)\<rparr>) (704, 528) turned) = 300 \<and>
   c_height (onload_DivP page (no_props\<lparr>p_resolutionPx := Some (- 1)\<rparr>) (704, 528) turned) = 150 \<and>
   c_width (onload_IC ''data:,'' (704, 528) initial_refs) = 528 \<and>
   c_width (onload_Canvas (Some 256) page ''data:,'' (704, 528) initial_refs) = 256 \<and>
   c_width (onload_Canvas None (page\<lparr>containerRect := Some 352.5\<rparr>) ''data:,'' (704, 528)
              initial_refs) = 352 \<and>
   c_width (onload_Canvas None (page\<lparr>containerRect := None\<rparr>) ''data:,'' (704, 528)
              initial_refs) = 512"
proof -
  have conv: "toUnsignedLong (- 1) = 4294967295" "toUnsignedLong 352.5 = 352"
    "toUnsignedLong 256 = 256" "toUnsignedLong 512 = 512" "toUnsignedLong 528 = 528"
    by (simp_all add: toUnsignedLong_def integerPart_def)
  from canvas_side [of page no_props 704 528 turned None "''data:,''" initial_refs 528 704 528]
    canvas_side [of page "no_props\<lparr>p_resolutionPx := Some 256\<rparr>" 704 528 turned "Some 256"
                    "''data:,''" initial_refs 256 704 528]
    canvas_side [of page "no_props\<lparr>p_resolutionPx := Some (- 1)\<rparr>" 704 528 turned None
                    "''data:,''" initial_refs "- 1" 704 528]
    canvas_side [of "page\<lparr>containerRect := Some 352.5\<rparr>" no_props 704 528 turned None
                    "''data:,''" initial_refs "352.5" 704 528]
    canvas_side [of "page\<lparr>containerRect := None\<rparr>" no_props 704 528 turned None
                    "''data:,''" initial_refs 512 704 528]
  show ?thesis by (simp add: no_props_def conv)
qed

subsection \<open>Sliders and drag\<close>

text \<open>
  Claim C5, as stated, at an input: in \<open>ImageCropperWithDiv\<close> used without props, at zoom
  0.5 and pan \<open>(0, 0)\<close>, a drag by \<open>(10, 0)\<close> moves the pan to \<open>(20, 0)\<close>, not to \<open>(10, 0)\<close>.
\<close>

theorem onDrag_DivP_rescales:
  "map_option (\<lambda>sa. panState (fst sa))
     (onDrag_DivP no_props (10, 0) (initial_states\<lparr>zoomState := 0.5\<rparr>, []))
   = Some \<lparr>vec_x = 20, vec_y = 0\<rparr>"
  by (simp add: DivP_defs example_defs quotient_def)

text \<open>
  Claim C5, amended. The rotation handler stores exactly the value it is given, and the
  pan X and pan Y handlers store it in their component (in the ref-based \<open>ImageCropper\<close>
  the value is the first element of the slider's array; in the version with state
  props the value goes to the caller's setter where one was passed). A drag does not add
  its delta as it is. In \<open>ImageCropperWithDiv\<close>, at a zoom other than 0, the new pan is the
  current pan plus the delta divided by the current zoom; in the version with state props
  the current pan and zoom are the props where they are passed, and the new pan goes to
  the caller's \<open>setPan\<close> where one was passed, component by component, and to the state
  otherwise. In the ref-based \<open>ImageCropper\<close> the new pan is the pan plus the delta divided
  by 100, and in the canvas cropper with \<open>resolutionPx\<close> the handler stores the gesture's
  offset as the pan.
\<close>

theorem sliders_store_value_and_drag_rescales:
  "(rotationState (handleRotationChange_Div v s) = v \<and>
    vec_x (panState (handlePanXChange_Div v s)) = v \<and>
    vec_y (panState (handlePanYChange_Div v s)) = v) \<and>
   (handleRotationChange_DivP p v (s, out) =
      (if p_setRotation p then (s, out @ [SetRotation v]) else (s\<lparr>rotationState := v\<rparr>, out)) \<and>
    (if p_setPan p then snd (handlePanXChange_DivP p v (s, out)) = out @ [SetPanX v]
     else vec_x (panState (fst (handlePanXChange_DivP p v (s, out)))) = v) \<and>
    (if p_setPan p then snd (handlePanYChange_DivP p v (s, out)) = out @ [SetPanY v]
     else vec_y (panState (fst (handlePanYChange_DivP p v (s, out)))) = v)) \<and>
   (rotation (handleRotationChange_Canvas h v r) = v \<and>
    vec_x (pan (handlePanXChange_Canvas h v r)) = v \<and>
    vec_y (pan (handlePanYChange_Canvas h v r)) = v) \<and>
   (map_option rotation (handleRotationChange_IC h (v # vs) r) = Some v \<and>
    map_option (\<lambda>r'. vec_x (pan r')) (handlePanXChange_IC h (v # vs) r) = Some v \<and>
    map_option (\<lambda>r'. vec_y (pan r')) (handlePanYChange_IC h (v # vs) r) = Some v) \<and>
   (zoomState s \<noteq> 0 \<longrightarrow>
      map_option panState (onDrag_Div (mx, my) s) =
        Some \<lparr>vec_x = vec_x (panState s) + mx / zoomState s,
              vec_y = vec_y (panState s) + my / zoomState s\<rparr>) \<and>
   (zoom_DivP p s \<noteq> 0 \<longrightarrow>
      onDrag_DivP p (mx, my) (s, out) =
        Some (if p_setPan p
              then (s, out @ [SetPanX (vec_x (pan_DivP p s) + mx / zoom_DivP p s),
                              SetPanY (vec_y (pan_DivP p s) + my / zoom_DivP p s)])
              else (s\<lparr>panState := \<lparr>vec_x = vec_x (pan_DivP p s) + mx / zoom_DivP p s,
                                    vec_y = vec_y (pan_DivP p s) + my / zoom_DivP p s\<rparr>\<rparr>,
                    out))) \<and>
   pan (onDrag_IC h (mx, my) r) =
     \<lparr>vec_x = vec_x (pan r) + mx / 100, vec_y = vec_y (pan r) + my / 100\<rparr> \<and>
   pan (onDrag_Canvas h (mx, my) r) = \<lparr>vec_x = mx, vec_y = my\<rparr>"
proof -
  have sliders_Div: "rotationState (handleRotationChange_Div v s) = v \<and>
      vec_x (panState (handlePanXChange_Div v s)) = v \<and>
      vec_y (panState (handlePanYChange_Div v s)) = v"
    by (simp add: Div_defs)
  have sliders_DivP: "handleRotationChange_DivP p v (s, out) =
        (if p_setRotation p then (s, out @ [SetRotation v]) else (s\<lparr>rotationState := v\<rparr>, out)) \<and>
      (if p_setPan p then snd (handlePanXChange_DivP p v (s, out)) = out @ [SetPanX v]
       else vec_x (panState (fst (handlePanXChange_DivP p v (s, out)))) = v) \<and>
      (if p_setPan p then snd (handlePanYChange_DivP p v (s, out)) = out @ [SetPanY v]
       else vec_y (panState (fst (handlePanYChange_DivP p v (s, out)))) = v)"
    by (simp add: DivP_defs)
  have sliders_Canvas: "rotation (handleRotationChange_Canvas h v r) = v \<and>
      vec_x (pan (handlePanXChange_Canvas h v r)) = v \<and>
      vec_y (pan (handlePanYChange_Canvas h v r)) = v"
    by (simp add: Canvas_defs)
  have sliders_IC: "map_option rotation (handleRotationChange_IC h (v # vs) r) = Some v \<and>
      map_option (\<lambda>r'. vec_x (pan r')) (handlePanXChange_IC h (v # vs) r) = Some v \<and>
      map_option (\<lambda>r'. vec_y (pan r')) (handlePanYChange_IC h (v # vs) r) = Some v"
    by (simp add: IC_defs)
  have drag_Div: "zoomState s \<noteq> 0 \<longrightarrow>
      map_option panState (onDrag_Div (mx, my) s) =
        Some \<lparr>vec_x = vec_x (panState s) + mx / zoomState s,
              vec_y = vec_y (panState s) + my / zoomState s\<rparr>"
    by (simp add: Div_defs quotient_def)
  have drag_DivP: "zoom_DivP p s \<noteq> 0 \<longrightarrow>
      onDrag_DivP p (mx, my) (s, out) =
        Some (if p_setPan p
              then (s, out @ [SetPanX (vec_x (pan_DivP p s) + mx / zoom_DivP p s),
                              SetPanY (vec_y (pan_DivP p s) + my / zoom_DivP p s)])
              else (s\<lparr>panState := \<lparr>vec_x = vec_x (pan_DivP p s) + mx / zoom_DivP p s,
                                    vec_y = vec_y (pan_DivP p s) + my / zoom_DivP p s\<rparr>\<rparr>,
                    out))"
    by (simp add: quotient_def)
  have drag_IC: "pan (onDrag_IC h (mx, my) r) =
      \<lparr>vec_x = vec_x (pan r) + mx / 100, vec_y = vec_y (pan r) + my / 100\<rparr>"
    by (simp add: IC_defs)
  have drag_Canvas: "pan (onDrag_Canvas h (mx, my) r) = \<lparr>vec_x = mx, vec_y = my\<rparr>"
    by (simp add: Canvas_defs)
  from sliders_Div sliders_DivP sliders_Canvas sliders_IC drag_Div drag_DivP drag_IC
    drag_Canvas
  show ?thesis by (intro conjI) blast+
qed

theorem sliders_store_value_and_drag_rescales_witness:
  "zoom_DivP no_props (initial_states\<lparr>zoomState := 0.5\<rparr>) \<noteq> 0 \<and>
   map_option (\<lambda>sa. panState (fst sa))
     (onDrag_DivP no_props (10, 6) (initial_states\<lparr>zoomState := 0.5\<rparr>, []))
     = Some \<lparr>vec_x = 20, vec_y = 12\<rparr> \<and>
   zoom_DivP controlled_pan initial_states \<noteq> 0 \<and>
   onDrag_DivP controlled_pan (10, 6) (initial_states, [])
     = Some (initial_states, [SetPanX 13, SetPanY 13]) \<and>
   rotationState (handleRotationChange_Div 90 initial_states) = 90 \<and>
   pan (onDrag_IC page (10, 6) initial_refs) = \<lparr>vec_x = 0.1, vec_y = 0.06\<rparr>"
  using sliders_store_value_and_drag_rescales
          [of 90 "initial_states\<lparr>zoomState := 0.5\<rparr>" no_props "[]" page initial_refs "[]" 10 6]
    sliders_store_value_and_drag_rescales
          [of 90 initial_states no_props "[]" page initial_refs "[]" 10 6]
    sliders_store_value_and_drag_rescales
          [of 90 initial_states controlled_pan "[]" page initial_refs "[]" 10 6]
  by (simp add: example_defs controlled_pan_def zoom_DivP_def pan_DivP_def)

subsection \<open>What an export does to the outside\<close>




subsection \<open>Early returns\<close>

text \<open>
  Claim C7. When the canvas element or its 2D context is missing, \<open>updateCanvas\<close> of the
  two canvas croppers returns the state as it is (no image load and so no draw is set
  up) and their \<open>handleSubmit\<close> starts no download; when the context is missing,
  \<open>updateCanvas\<close>, \<open>drawToCanvas\<close> and \<open>handleSubmit\<close> of \<open>ImageCropperWithDiv\<close> make no
  call and start no download. A file-change event without a file does nothing in
  \<open>ImageCropperWithDiv\<close> and in the canvas cropper with \<open>resolutionPx\<close>; in the ref-based
  \<open>ImageCropper\<close> it sets up no image load and leaves canvas, image source and pan as
  they are. Each of these operations returns a value: none of them raises.
\<close>

theorem early_return_without_canvas_or_file:
  "(\<not> canvasElement h \<or> \<not> context2d h \<longrightarrow>
      updateCanvas_IC h r = r \<and> handleSubmit_IC h r = [] \<and>
      updateCanvas_Canvas h r = r \<and> handleSubmit_Canvas h r = []) \<and>
   (\<not> context2d h \<longrightarrow>
      updateCanvas_Div resolutionPx h s = [] \<and> handleSubmit_Div resolutionPx h s = [] \<and>
      drawToCanvas_DivP h p s = [] \<and> handleSubmit_DivP h p s = []) \<and>
   handleImageChange_DivP p NoFile (s, out) = (s, out) \<and>
   handleImageChange_Div NoFile s = s \<and>
   handleImageChange_Canvas h NoFile r = r \<and>
   (pending (handleImageChange_IC h NoFile r) = pending r \<and>
    shown (handleImageChange_IC h NoFile r) = shown r \<and>
    imageSrc (handleImageChange_IC h NoFile r) = imageSrc r \<and>
    pan (handleImageChange_IC h NoFile r) = pan r)"
proof -
  have canvas: "\<not> canvasElement h \<or> \<not> context2d h \<longrightarrow>
      updateCanvas_IC h r = r \<and> handleSubmit_IC h r = [] \<and>
      updateCanvas_Canvas h r = r \<and> handleSubmit_Canvas h r = []"
    by (auto simp: IC_defs Canvas_defs)
  have div: "\<not> context2d h \<longrightarrow>
      updateCanvas_Div resolutionPx h s = [] \<and> handleSubmit_Div resolutionPx h s = [] \<and>
      drawToCanvas_DivP h p s = [] \<and> handleSubmit_DivP h p s = []"
    by (simp add: Div_defs DivP_defs)
  have nofile: "handleImageChange_DivP p NoFile (s, out) = (s, out) \<and>
      handleImageChange_Div NoFile s = s \<and>
      handleImageChange_Canvas h NoFile r = r"
    by (simp add: Div_defs DivP_defs Canvas_defs)
  have nofile_IC: "pending (handleImageChange_IC h NoFile r) = pending r \<and>
      shown (handleImageChange_IC h NoFile r) = shown r \<and>
      imageSrc (handleImageChange_IC h NoFile r) = imageSrc r \<and>
      pan (handleImageChange_IC h NoFile r) = pan r"
    by (simp add: IC_defs Let_def)
  from canvas div nofile nofile_IC show ?thesis by blast
qed

theorem early_return_without_canvas_or_file_witness:
  "\<not> context2d page_without_context \<and>
   updateCanvas_IC page_without_context (initial_refs\<lparr>imageSrc := ''data:,''\<rparr>)
     = initial_refs\<lparr>imageSrc := ''data:,''\<rparr> \<and>
   handleSubmit_IC page_without_context (initial_refs\<lparr>imageSrc := ''data:,''\<rparr>) = [] \<and>
   handleSubmit_DivP page_without_context (no_props\<lparr>p_onCrop := True\<rparr>) turned = [] \<and>
   handleSubmit_DivP page_without_context no_props turned = [] \<and>
   handleImageChange_DivP no_props NoFile (turned, []) = (turned, [])"
  using early_return_without_canvas_or_file
          [of page_without_context "initial_refs\<lparr>imageSrc := ''data:,''\<rparr>" None turned
              "no_props\<lparr>p_onCrop := True\<rparr>" "[]"]
    early_return_without_canvas_or_file
          [of page_without_context "initial_refs\<lparr>imageSrc := ''data:,''\<rparr>" None turned
              no_props "[]"]
  by (simp add: page_without_context_def)

subsection \<open>What the pan handlers leave alone\<close>

text \<open>
  Claim C9. The pan X handler changes the x component of the pan and nothing else of the
  state: the y component, zoom, rotation and the image source are what they were (and so
  are the stored image dimensions and the canvas shown); the pan Y handler does the same
  for the y component. In the version with state props the handler leaves the whole
  state alone when the caller passed \<open>setPan\<close>. In the ref-based \<open>ImageCropper\<close> the value is
  the first element of the slider's array.
\<close>

theorem pan_handlers_frame:
  "(fst (handlePanXChange_DivP p v (s, out)) =
      (if p_setPan p then s else s\<lparr>panState := \<lparr>vec_x = v, vec_y = vec_y (panState s)\<rparr>\<rparr>) \<and>
    fst (handlePanYChange_DivP p v (s, out)) =
      (if p_setPan p then s else s\<lparr>panState := \<lparr>vec_x = vec_x (panState s), vec_y = v\<rparr>\<rparr>)) \<and>
   (handlePanXChange_Div v s = s\<lparr>panState := \<lparr>vec_x = v, vec_y = vec_y (panState s)\<rparr>\<rparr> \<and>
    handlePanYChange_Div v s = s\<lparr>panState := \<lparr>vec_x = vec_x (panState s), vec_y = v\<rparr>\<rparr>) \<and>
   (map_option (\<lambda>r'. (pan r', zoom r', rotation r', imageSrc r', shown r'))
        (handlePanXChange_IC h (v # vs) r) =
      Some (\<lparr>vec_x = v, vec_y = vec_y (pan r)\<rparr>, zoom r, rotation r, imageSrc r, shown r) \<and>
    map_option (\<lambda>r'. (pan r', zoom r', rotation r', imageSrc r', shown r'))
        (handlePanYChange_IC h (v # vs) r) =
      Some (\<lparr>vec_x = vec_x (pan r), vec_y = v\<rparr>, zoom r, rotation r, imageSrc r, shown r)) \<and>
   ((\<lambda>r'. (pan r', zoom r', rotation r', imageSrc r', shown r'))
        (handlePanXChange_Canvas h v r) =
      (\<lparr>vec_x = v, vec_y = vec_y (pan r)\<rparr>, zoom r, rotation r, imageSrc r, shown r) \<and>
    (\<lambda>r'. (pan r', zoom r', rotation r', imageSrc r', shown r'))
        (handlePanYChange_Canvas h v r) =
      (\<lparr>vec_x = vec_x (pan r), vec_y = v\<rparr>, zoom r, rotation r, imageSrc r, shown r))"
proof -
  have divp: "fst (handlePanXChange_DivP p v (s, out)) =
        (if p_setPan p then s else s\<lparr>panState := \<lparr>vec_x = v, vec_y = vec_y (panState s)\<rparr>\<rparr>) \<and>
      fst (handlePanYChange_DivP p v (s, out)) =
        (if p_setPan p then s else s\<lparr>panState := \<lparr>vec_x = vec_x (panState s), vec_y = v\<rparr>\<rparr>)"
    by simp
  have div: "handlePanXChange_Div v s = s\<lparr>panState := \<lparr>vec_x = v, vec_y = vec_y (panState s)\<rparr>\<rparr> \<and>
      handlePanYChange_Div v s = s\<lparr>panState := \<lparr>vec_x = vec_x (panState s), vec_y = v\<rparr>\<rparr>"
    by (simp add: Div_defs)
  have ic: "map_option (\<lambda>r'. (pan r', zoom r', rotation r', imageSrc r', shown r'))
          (handlePanXChange_IC h (v # vs) r) =
        Some (\<lparr>vec_x = v, vec_y = vec_y (pan r)\<rparr>, zoom r, rotation r, imageSrc r, shown r) \<and>
      map_option (\<lambda>r'. (pan r', zoom r', rotation r', imageSrc r', shown r'))
          (handlePanYChange_IC h (v # vs) r) =
        Some (\<lparr>vec_x = vec_x (pan r), vec_y = v\<rparr>, zoom r, rotation r, imageSrc r, shown r)"
    by (simp add: IC_defs)
  have canvas: "(\<lambda>r'. (pan r', zoom r', rotation r', imageSrc r', shown r'))
          (handlePanXChange_Canvas h v r) =
        (\<lparr>vec_x = v, vec_y = vec_y (pan r)\<rparr>, zoom r, rotation r, imageSrc r, shown r) \<and>
      (\<lambda>r'. (pan r', zoom r', rotation r', imageSrc r', shown r'))
          (handlePanYChange_Canvas h v r) =
        (\<lparr>vec_x = vec_x (pan r), vec_y = v\<rparr>, zoom r, rotation r, imageSrc r, shown r)"
    by (simp add: Canvas_defs)
  from divp div ic canvas show ?thesis by blast
qed

theorem pan_handlers_frame_witness:
  "fst (handlePanXChange_DivP no_props 25 (turned, [])) =
     \<lparr>imageState = ''data:,'', zoomState = 1, rotationState = 180,
      panState = \<lparr>vec_x = 25, vec_y = 0\<rparr>, imageDimensions = (704, 528)\<rparr> \<and>
   fst (handlePanYChange_DivP no_props 25 (turned, [])) =
     \<lparr>imageState = ''data:,'', zoomState = 1, rotationState = 180,
      panState = \<lparr>vec_x = 10, vec_y = 25\<rparr>, imageDimensions = (704, 528)\<rparr>"
  using pan_handlers_frame [of no_props 25 turned "[]" page "[]" initial_refs]
  by (simp add: no_props_def turned_def)

subsection \<open>Zoom stays positive\<close>

lemma zoomState_setImageSrc_DivP [simp]:
  "zoomState (fst (setImageSrc_DivP p v sa)) = zoomState (fst sa)"
  by (cases sa) simp

lemma zoomState_handleRotationChange_DivP [simp]:
  "zoomState (fst (handleRotationChange_DivP p v sa)) = zoomState (fst sa)"
  by (cases sa) (simp add: handleRotationChange_DivP_def)

lemma zoomState_handlePanXChange_DivP [simp]:
  "zoomState (fst (handlePanXChange_DivP p v sa)) = zoomState (fst sa)"
  by (cases sa) simp

lemma zoomState_handlePanYChange_DivP [simp]:
  "zoomState (fst (handlePanYChange_DivP p v sa)) = zoomState (fst sa)"
  by (cases sa) simp

lemma zoomState_imageEffect_DivP [simp]:
  "zoomState (imageEffect_DivP h p st) = zoomState st"
  by (simp add: imageEffect_DivP_def split: option.split)

lemma zoomState_handleZoomChange_DivP:
  "zoomState (fst (handleZoomChange_DivP p v sa)) =
     (if p_setZoom p then zoomState (fst sa) else max 0.25 v)"
  by (cases sa) (simp add: handleZoomChange_DivP_def)

lemma zoom_floor_handleZoomChange_DivP:
  "0.25 \<le> zoomState (fst sa) \<Longrightarrow> 0.25 \<le> zoomState (fst (handleZoomChange_DivP p v sa))"
  by (simp add: zoomState_handleZoomChange_DivP max_def)

lemma zoom_floor_handleImageChange_DivP:
  "0.25 \<le> zoomState (fst sa) \<Longrightarrow> 0.25 \<le> zoomState (fst (handleImageChange_DivP p e sa))"
  by (simp add: handleImageChange_DivP_def zoomState_handleZoomChange_DivP max_def
      split: file_event.split option.split)

lemma zoomState_onDrag_DivP:
  "onDrag_DivP p delta sa = Some sa' \<Longrightarrow> zoomState (fst sa') = zoomState (fst sa)"
  by (cases sa) (auto split: option.splits)

text \<open>A step of the component keeps the stored zoom at 0.25 or above.\<close>

lemma zoom_floor_step_DivP:
  assumes "0.25 \<le> zoomState st" and "step_DivP h p ev st = Some (st', out)"
  shows "0.25 \<le> zoomState st'"
proof (cases ev)
  case (ImageChange e)
  with assms(2) have "st' = imageEffect_DivP h p (fst (handleImageChange_DivP p e (st, [])))"
    by (auto split: prod.splits)
  with assms(1) zoom_floor_handleImageChange_DivP [of "(st, [])" p e] show ?thesis by simp
next
  case (ZoomSlider v)
  with assms(2) have "st' = fst (handleZoomChange_DivP p v (st, []))" by auto
  with assms(1) zoom_floor_handleZoomChange_DivP [of "(st, [])" p v] show ?thesis by simp
next
  case (RotationSlider v)
  with assms(2) have "st' = fst (handleRotationChange_DivP p v (st, []))" by auto
  with assms(1) show ?thesis by simp
next
  case (PanXSlider v)
  with assms(2) have "st' = fst (handlePanXChange_DivP p v (st, []))" by auto
  with assms(1) show ?thesis by (simp only: zoomState_handlePanXChange_DivP fst_conv)
next
  case (PanYSlider v)
  with assms(2) have "st' = fst (handlePanYChange_DivP p v (st, []))" by auto
  with assms(1) show ?thesis by (simp only: zoomState_handlePanYChange_DivP fst_conv)
next
  case (Drag delta)
  with assms(2) zoomState_onDrag_DivP [of p delta "(st, [])" "(st', out)"]
  have "zoomState st' = zoomState st" by simp
  with assms(1) show ?thesis by simp
next
  case (Pinch delta)
  with assms(2) have "st' = fst (handleZoomChange_DivP p (zoom_DivP p st + fst delta) (st, []))"
    by auto
  with assms(1) zoom_floor_handleZoomChange_DivP [of "(st, [])" p] show ?thesis by simp
next
  case Submit
  with assms show ?thesis by auto
qed

lemma zoom_floor_reachable_DivP:
  "reachable_DivP h p st \<Longrightarrow> 0.25 \<le> zoomState st"
proof (induction rule: reachable_DivP.induct)
  case initial
  show ?case by (simp add: initial_states_def)
next
  case (step st ev st' out)
  then show ?case by (blast intro: zoom_floor_step_DivP)
qed

text \<open>The example state is one the component gets into on the example page.\<close>

lemma reachable_turned: "reachable_DivP page no_props turned"
proof -
  let ?s1 = "initial_states\<lparr>imageState := ''data:,'', imageDimensions := (704, 528)\<rparr>"
  let ?s2 = "?s1\<lparr>rotationState := 180\<rparr>"
  have "step_DivP page no_props (ImageChange (File (Some ''data:,''))) initial_states
      = Some (?s1, [])"
    by (simp add: DivP_defs imageEffect_DivP_def example_defs)
  with reachable_DivP.initial have r1: "reachable_DivP page no_props ?s1"
    by (rule reachable_DivP.step)
  have "step_DivP page no_props (RotationSlider 180) ?s1 = Some (?s2, [])"
    by (simp add: DivP_defs example_defs)
  with r1 have r2: "reachable_DivP page no_props ?s2" by (rule reachable_DivP.step)
  have "step_DivP page no_props (PanXSlider 10) ?s2 = Some (turned, [])"
    by (simp add: DivP_defs example_defs turned_def)
  with r2 show ?thesis by (rule reachable_DivP.step)
qed

text \<open>
  Claim C10. In \<open>ImageCropperWithDiv\<close> with no \<open>zoom\<close> prop, zoom is positive in every state
  the component can get into: it starts at 1 and every write of it goes through
  \<open>max(0.25, v)\<close>. So the divisor in the drag handler is never 0: the handler always
  yields a new pan.
\<close>

theorem zoom_positive_DivP:
  assumes "reachable_DivP h p st" and "p_zoom p = None"
  shows "0 < zoom_DivP p st \<and> (\<forall>delta out. onDrag_DivP p delta (st, out) \<noteq> None)"
proof -
  from assms(1) have "0.25 \<le> zoomState st" by (rule zoom_floor_reachable_DivP)
  with assms(2) have "0 < zoom_DivP p st" by (simp add: zoom_DivP_def)
  then show ?thesis by (simp add: quotient_def)
qed

theorem zoom_positive_DivP_witness:
  "reachable_DivP page no_props turned \<and> p_zoom no_props = None \<and>
   0 < zoom_DivP no_props turned \<and>
   onDrag_DivP no_props (10, 6) (turned, []) \<noteq> None"
proof -
  have none: "p_zoom no_props = None" by (simp add: no_props_def)
  from zoom_positive_DivP [OF reachable_turned none] reachable_turned none
  show ?thesis by blast
qed

subsection \<open>Upload, load and submit in the canvas croppers\<close>

lemma onload_IC_ignores_canvas [simp]:
  "onload_IC img dims (r\<lparr>shown := c\<rparr>) = onload_IC img dims r"
  "onload_IC img dims (r\<lparr>pending := q\<rparr>) = onload_IC img dims r"
  by (simp_all add: onload_IC_def)

text \<open>When the load that was set up last completes, it decides what the canvas shows.\<close>

lemma loads_IC_last:
  "imageLoad h img = Some dims \<Longrightarrow>
     loads_IC h (imgs @ [img]) r = r\<lparr>shown := onload_IC img dims r\<rparr>"
proof (induction imgs arbitrary: r)
  case Nil
  then show ?case by simp
next
  case (Cons a imgs)
  then show ?case by (simp split: option.split)
qed

text \<open>
  In the ref-based \<open>ImageCropper\<close>, on a page with the canvas and its context, an upload
  that reads as a data URL and loads, followed by a submit, downloads the data URL of the
  canvas drawn from that image with zoom 0.5, rotation 0 and the pan as it was, whatever
  loads were still pending before.
\<close>

theorem upload_then_submit_IC:
  assumes "canvasElement h" and "context2d h" and "imageLoad h url = Some dims"
  shows "handleSubmit_IC h (flush_IC h (handleImageChange_IC h (File (Some url)) r)) =
           [Download (toDataURL h
              (onload_IC url dims (r\<lparr>zoom := 0.5, rotation := 0, imageSrc := url\<rparr>)))]"
proof -
  let ?r = "r\<lparr>zoom := 0.5, rotation := 0, imageSrc := url\<rparr>"
  have "handleImageChange_IC h (File (Some url)) r = ?r\<lparr>pending := pending r @ [url]\<rparr>"
    using assms(1,2) by (simp add: IC_defs Let_def)
  then have "flush_IC h (handleImageChange_IC h (File (Some url)) r) =
      loads_IC h (pending r @ [url]) (?r\<lparr>pending := []\<rparr>)"
    by (simp add: flush_IC_def)
  also have "\<dots> = (?r\<lparr>pending := []\<rparr>)\<lparr>shown := onload_IC url dims (?r\<lparr>pending := []\<rparr>)\<rparr>"
    using assms(3) by (rule loads_IC_last)
  finally show ?thesis using assms(1,2) by (simp add: handleSubmit_IC_def)
qed

theorem upload_then_submit_IC_witness:
  "canvasElement page \<and> context2d page \<and> imageLoad page ''data:,'' = Some (704, 528) \<and>
   handleSubmit_IC page
     (flush_IC page (handleImageChange_IC page (File (Some ''data:,'')) initial_refs))
     = [Download ''data:image/png;base64,''] \<and>
   c_width (shown
     (flush_IC page (handleImageChange_IC page (File (Some ''data:,'')) initial_refs))) = 528"
proof -
  have el: "canvasElement page" and ctx: "context2d page"
    and img: "imageLoad page ''data:,'' = Some (704, 528)"
    by (simp_all add: page_def)
  have "c_width (shown
      (flush_IC page (handleImageChange_IC page (File (Some ''data:,'')) initial_refs))) = 528"
    by (simp add: flush_IC_def IC_defs Let_def onload_IC_def example_defs canvas_defs)
  with upload_then_submit_IC [OF el ctx img, of initial_refs] el ctx img
  show ?thesis by (simp add: page_def)
qed

lemma onload_Canvas_ignores_canvas [simp]:
  "onload_Canvas res h img dims (r\<lparr>shown := c\<rparr>) = onload_Canvas res h img dims r"
  "onload_Canvas res h img dims (r\<lparr>pending := q\<rparr>) = onload_Canvas res h img dims r"
  by (simp_all add: onload_Canvas_def)

lemma loads_Canvas_last:
  "imageLoad h img = Some dims \<Longrightarrow>
     loads_Canvas res h (imgs @ [img]) r = r\<lparr>shown := onload_Canvas res h img dims r\<rparr>"
proof (induction imgs arbitrary: r)
  case Nil
  then show ?case by simp
next
  case (Cons a imgs)
  then show ?case by (simp split: option.split)
qed

text \<open>
  The same for the canvas cropper with \<open>resolutionPx\<close>: the canvas downloaded is drawn from
  the uploaded image with zoom 1, rotation 0 and the x component of the pan at 0.
\<close>

theorem upload_then_submit_Canvas:
  assumes "canvasElement h" and "context2d h" and "imageLoad h url = Some dims"
  shows "handleSubmit_Canvas h
           (flush_Canvas res h (handleImageChange_Canvas h (File (Some url)) r)) =
           [Download (toDataURL h
              (onload_Canvas res h url dims
                 (r\<lparr>imageSrc := url, pan := (pan r)\<lparr>vec_x := 0\<rparr>, zoom := 1, rotation := 0\<rparr>)))]"
proof -
  let ?r = "r\<lparr>imageSrc := url, pan := (pan r)\<lparr>vec_x := 0\<rparr>, zoom := 1, rotation := 0\<rparr>"
  have "handleImageChange_Canvas h (File (Some url)) r =
      ?r\<lparr>pending := (pending r @ [url, url, url]) @ [url]\<rparr>"
    using assms(1,2) by (simp add: Canvas_defs Let_def)
  then have "flush_Canvas res h (handleImageChange_Canvas h (File (Some url)) r) =
      loads_Canvas res h ((pending r @ [url, url, url]) @ [url]) (?r\<lparr>pending := []\<rparr>)"
    by (simp add: flush_Canvas_def)
  also have "\<dots> = (?r\<lparr>pending := []\<rparr>)\<lparr>shown := onload_Canvas res h url dims (?r\<lparr>pending := []\<rparr>)\<rparr>"
    using assms(3) by (rule loads_Canvas_last)
  finally show ?thesis using assms(1,2) by (simp add: handleSubmit_Canvas_def)
qed

theorem upload_then_submit_Canvas_witness:
  "canvasElement page \<and> context2d page \<and> imageLoad page ''data:,'' = Some (704, 528) \<and>
   handleSubmit_Canvas page
     (flush_Canvas None page (handleImageChange_Canvas page (File (Some ''data:,'')) initial_refs))
     = [Download ''data:image/png;base64,''] \<and>
   c_width (shown
     (flush_Canvas None page
        (handleImageChange_Canvas page (File (Some ''data:,'')) initial_refs))) = 352"
proof -
  have el: "canvasElement page" and ctx: "context2d page"
    and img: "imageLoad page ''data:,'' = Some (704, 528)"
    by (simp_all add: page_def)
  have "c_width (shown
      (flush_Canvas None page
         (handleImageChange_Canvas page (File (Some ''data:,'')) initial_refs))) = 352"
    by (simp add: flush_Canvas_def Canvas_defs Let_def onload_Canvas_def example_defs
        canvas_defs)
  with upload_then_submit_Canvas [OF el ctx img, of None initial_refs] el ctx img
  show ?thesis by (simp add: page_def)
qed

subsection \<open>Where preview and export agree\<close>

text \<open>
  With no \<open>resolutionPx\<close>, a square container and either no rotation or no pan, the export
  of \<open>ImageCropperWithDiv\<close> places the image as the preview does, up to the factor
  \<open>k = min(width, height) / container width\<close> between container and canvas: a point
  \<open>q\<close> of the preview element (relative to its centre) that the preview's transform sends
  to \<open>q'\<close> is drawn on the canvas, as the image point \<open>k q\<close>, at the middle of the canvas
  plus \<open>k q'\<close>.
\<close>

theorem export_matches_preview_DivP:
  assumes "rotation_DivP p s = 0 \<or> pan_DivP p s = \<lparr>vec_x = 0, vec_y = 0\<rparr>"
    and "fst (containerDims h) = snd (containerDims h)"
    and "fst (containerDims h) \<noteq> 0"
    and "p_resolutionPx p = None"
    and "preview_DivP h p s = Some shown_style"
  shows "map (\<lambda>d. apply_matrix (d_transform d)
                 (min wd ht / fst (containerDims h) * qx, min wd ht / fst (containerDims h) * qy))
           (c_content (onload_DivP h p (wd, ht) s))
         = [(min wd ht / 2 + min wd ht / fst (containerDims h)
               * fst (apply_matrix (transform_matrix (transform shown_style)) (qx, qy)),
             min wd ht / 2 + min wd ht / fst (containerDims h)
               * snd (apply_matrix (transform_matrix (transform shown_style)) (qx, qy)))]"
proof -
  from assms(5) have t: "transform shown_style =
      [Scale (zoom_DivP p s), Rotate (rotation_DivP p s),
       Translate (vec_x (pan_DivP p s)) (vec_y (pan_DivP p s))]"
    by (auto simp: preview_DivP_def Let_def split: if_splits)
  from assms(1) show ?thesis
  proof
    assume "rotation_DivP p s = 0"
    with assms(2,3,4) t show ?thesis
      by (simp add: onload_DivP_def Let_def transform_matrix_def matrix_defs algebra_simps)
  next
    assume "pan_DivP p s = \<lparr>vec_x = 0, vec_y = 0\<rparr>"
    with assms(2,3,4) t show ?thesis
      by (simp add: onload_DivP_def Let_def transform_matrix_def matrix_defs algebra_simps)
  qed
qed

theorem export_matches_preview_DivP_witness:
  "rotation_DivP no_props (turned\<lparr>rotationState := 0\<rparr>) = 0 \<and>
   fst (containerDims page) = snd (containerDims page) \<and>
   fst (containerDims page) \<noteq> 0 \<and>
   p_resolutionPx no_props = None \<and>
   map_option (\<lambda>st. apply_matrix (transform_matrix (transform st)) (4, 2))
     (preview_DivP page no_props (turned\<lparr>rotationState := 0\<rparr>)) = Some (14, 2) \<and>
   map (\<lambda>d. apply_matrix (d_transform d) (6, 3))
     (c_content (onload_DivP page no_props (704, 528) (turned\<lparr>rotationState := 0\<rparr>)))
     = [(285, 267)]"
proof -
  let ?s = "turned\<lparr>rotationState := 0\<rparr>"
  let ?shown = "\<lparr>height = Percent 100, width = Px (352 * (704 / 528)),
      transform = [Scale 1, Rotate 0, Translate 10 0]\<rparr>"
  have rot: "rotation_DivP no_props ?s = 0 \<or> pan_DivP no_props ?s = \<lparr>vec_x = 0, vec_y = 0\<rparr>"
    by (simp add: rotation_DivP_def no_props_def turned_def)
  have square: "fst (containerDims page) = snd (containerDims page)" by (simp add: page_def)
  have wide: "fst (containerDims page) \<noteq> 0" by (simp add: page_def)
  have res: "p_resolutionPx no_props = None" by (simp add: no_props_def)
  have prev: "preview_DivP page no_props ?s = Some ?shown"
    by (simp add: preview_DivP_def Let_def DivP_defs example_defs turned_def)
  have at: "apply_matrix (transform_matrix (transform ?shown)) (4, 2) = (14, 2)"
    by (simp add: transform_matrix_def matrix_defs)
  from export_matches_preview_DivP [OF rot square wide res prev, of 704 528 4 2] at
  have "map (\<lambda>d. apply_matrix (d_transform d) (6, 3))
      (c_content (onload_DivP page no_props (704, 528) ?s)) = [(285, 267)]"
    by (simp add: page_def)
  with rot square wide res prev at show ?thesis
    by (simp add: rotation_DivP_def no_props_def turned_def)
qed

subsection \<open>The zoom minimum in the other components\<close>

text \<open>
  In the canvas cropper with \<open>resolutionPx\<close> and in the version of \<open>ImageCropperWithDiv\<close>
  that always downloads, the zoom handler, the pinch handler and an upload store a zoom
  of 0.25 or more, and every other handler leaves zoom as it is.
\<close>

theorem zoom_minimum_kept_Canvas_Div:
  "(0.25 \<le> zoom (handleZoomChange_Canvas h v r) \<and>
    0.25 \<le> zoom (onPinch_Canvas h d r) \<and>
    0.25 \<le> zoom (handleImageChange_Canvas h (File (Some url)) r) \<and>
    zoom (handleImageChange_Canvas h NoFile r) = zoom r \<and>
    zoom (handleImageChange_Canvas h (File None) r) = zoom r \<and>
    zoom (handleRotationChange_Canvas h v r) = zoom r \<and>
    zoom (handlePanXChange_Canvas h v r) = zoom r \<and>
    zoom (handlePanYChange_Canvas h v r) = zoom r \<and>
    zoom (onDrag_Canvas h d r) = zoom r) \<and>
   (0.25 \<le> zoomState (handleZoomChange_Div v s) \<and>
    0.25 \<le> zoomState (onPinch_Div d s) \<and>
    0.25 \<le> zoomState (handleImageChange_Div (File (Some url)) s) \<and>
    zoomState (handleImageChange_Div NoFile s) = zoomState s \<and>
    zoomState (handleImageChange_Div (File None) s) = zoomState s \<and>
    zoomState (handleRotationChange_Div v s) = zoomState s \<and>
    zoomState (handlePanXChange_Div v s) = zoomState s \<and>
    zoomState (handlePanYChange_Div v s) = zoomState s \<and>
    map_option zoomState (onDrag_Div d s) = map_option (\<lambda>_. zoomState s) (onDrag_Div d s))"
proof -
  have canvas: "0.25 \<le> zoom (handleZoomChange_Canvas h v r) \<and>
      0.25 \<le> zoom (onPinch_Canvas h d r) \<and>
      0.25 \<le> zoom (handleImageChange_Canvas h (File (Some url)) r) \<and>
      zoom (handleImageChange_Canvas h NoFile r) = zoom r \<and>
      zoom (handleImageChange_Canvas h (File None) r) = zoom r \<and>
      zoom (handleRotationChange_Canvas h v r) = zoom r \<and>
      zoom (handlePanXChange_Canvas h v r) = zoom r \<and>
      zoom (handlePanYChange_Canvas h v r) = zoom r \<and>
      zoom (onDrag_Canvas h d r) = zoom r"
    by (simp add: Canvas_defs Let_def max_def)
  have div: "0.25 \<le> zoomState (handleZoomChange_Div v s) \<and>
      0.25 \<le> zoomState (onPinch_Div d s) \<and>
      0.25 \<le> zoomState (handleImageChange_Div (File (Some url)) s) \<and>
      zoomState (handleImageChange_Div NoFile s) = zoomState s \<and>
      zoomState (handleImageChange_Div (File None) s) = zoomState s \<and>
      zoomState (handleRotationChange_Div v s) = zoomState s \<and>
      zoomState (handlePanXChange_Div v s) = zoomState s \<and>
      zoomState (handlePanYChange_Div v s) = zoomState s \<and>
      map_option zoomState (onDrag_Div d s) = map_option (\<lambda>_. zoomState s) (onDrag_Div d s)"
    by (simp add: Div_defs Let_def max_def quotient_def)
  from canvas div show ?thesis by blast
qed

theorem zoom_minimum_kept_Canvas_Div_witness:
  "zoom (handleZoomChange_Canvas page 0.1 initial_refs) = 0.25 \<and>
   zoom (onPinch_Canvas page (0.1, 0) initial_refs) = 0.25 \<and>
   zoomState (handleZoomChange_Div 0.1 initial_states) = 0.25 \<and>
   zoomState (onPinch_Div (- 2, 0) initial_states) = 0.25"
proof -
  have "zoom (handleZoomChange_Canvas page 0.1 initial_refs) \<le> 0.25 \<and>
      zoom (onPinch_Canvas page (0.1, 0) initial_refs) \<le> 0.25 \<and>
      zoomState (handleZoomChange_Div 0.1 initial_states) \<le> 0.25 \<and>
      zoomState (onPinch_Div (- 2, 0) initial_states) \<le> 0.25"
    by (simp add: Canvas_defs Div_defs Let_def example_defs)
  with zoom_minimum_kept_Canvas_Div [of page "0.1" initial_refs "(0.1, 0)" "''data:,''" initial_states]
    zoom_minimum_kept_Canvas_Div [of page "0.1" initial_refs "(- 2, 0)" "''data:,''" initial_states]
  show ?thesis by (intro conjI) (simp_all only: order.antisym)
qed

end
